theory Spec2Isabelle
  imports Complex_Main "HOL-Library.Word" "HOL-Library.Sublist"
begin

unbundle bit_operations_syntax

section \<open>Python values and string helpers\<close>

text \<open>
  A Python \<open>str\<close> is modelled as a \<open>string\<close>; a character is read as the code point
  of the same number (0 to 255). Values that may be \<open>None\<close> are \<open>pyval\<close>.
\<close>

datatype pyval = PNone | PStr string

text \<open>Python truthiness of a value that is \<open>None\<close> or a \<open>str\<close>.\<close>

fun truthy :: "pyval \<Rightarrow> bool" where
  "truthy PNone = False"
| "truthy (PStr s) = (s \<noteq> [])"

text \<open>\<open>d.get(k)\<close> and \<open>d.get(k, default)\<close> on a dict.\<close>

definition dict_get :: "('k \<rightharpoonup> pyval) \<Rightarrow> 'k \<Rightarrow> pyval" where
  "dict_get d k = (case d k of None \<Rightarrow> PNone | Some v \<Rightarrow> v)"

definition dict_get_default :: "('k \<rightharpoonup> 'v) \<Rightarrow> 'k \<Rightarrow> 'v \<Rightarrow> 'v" where
  "dict_get_default d k dflt = (case d k of None \<Rightarrow> dflt | Some v \<Rightarrow> v)"

text \<open>
  The letters a to z mapped to A to Z, every other character kept: the case folding of
  \<open>re.IGNORECASE\<close> for the ASCII letters of a pattern. Among the code points below
  256 an ASCII letter of a pattern matches its own two cases only.
\<close>

definition upper_char :: "char \<Rightarrow> char" where
  "upper_char c =
     (let n = (of_char c :: nat) in if 97 \<le> n \<and> n \<le> 122 then char_of (n - 32) else c)"

text \<open>
  \<open>str.upper()\<close> on the code points below 256: a to z and the Latin-1 letters 224 to
  254 (without the division sign 247) move down by 32, the sharp s (223) becomes
  \<open>SS\<close>, every other character is kept. The upper-case forms of the micro sign (181)
  and of y with diaeresis (255) lie beyond code point 255, where a \<open>string\<close> has no
  character: they are kept as they are, so \<open>upper\<close> is \<open>str.upper()\<close> on every text
  without these two characters.
\<close>

definition upper_str :: "char \<Rightarrow> string" where
  "upper_str c =
     (let n = (of_char c :: nat) in
      if (97 \<le> n \<and> n \<le> 122) \<or> (224 \<le> n \<and> n \<le> 254 \<and> n \<noteq> 247) then [char_of (n - 32)]
      else if n = 223 then ''SS''
      else [c])"

definition upper :: "string \<Rightarrow> string" where
  "upper s = concat (map upper_str s)"

section \<open>utils/config.py: ConfigManager.get_alpaca_credentials\<close>

text \<open>
  \<open>self.config\<close> is the loaded JSON document: a dict of sections, each a dict from
  field names to a string or \<open>None\<close>.
\<close>

type_synonym config_section = "string \<rightharpoonup> pyval"
type_synonym config = "string \<rightharpoonup> config_section"

definition paper_url :: string where
  "paper_url = ''https://paper-api.alpaca.markets''"

definition live_url :: string where
  "live_url = ''https://api.alpaca.markets''"

definition get_alpaca_credentials :: "config \<Rightarrow> pyval \<times> pyval \<times> pyval" where
  "get_alpaca_credentials cfg =
     (case cfg ''alpaca'' of
        None \<Rightarrow> (PNone, PNone, PNone)
      | Some sec \<Rightarrow>
          (let api_key = dict_get sec ''api_key'';
               api_secret = dict_get sec ''api_secret'';
               base_url = dict_get_default sec ''base_url'' (PStr paper_url)
           in (api_key, api_secret, base_url)))"

text \<open>
  C10. When the loaded configuration has an \<open>alpaca\<close> section without a \<open>base_url\<close>
  entry, \<open>get_alpaca_credentials\<close> returns the paper-trading URL
  \<open>https://paper-api.alpaca.markets\<close> as base_url, and so not the live endpoint.
\<close>

theorem get_alpaca_credentials_default_paper:
  assumes "cfg ''alpaca'' = Some sec" and "sec ''base_url'' = None"
  shows "snd (snd (get_alpaca_credentials cfg)) = PStr ''https://paper-api.alpaca.markets''
         \<and> snd (snd (get_alpaca_credentials cfg)) \<noteq> PStr live_url"
  using assms
  by (simp add: get_alpaca_credentials_def dict_get_default_def paper_url_def live_url_def)

theorem get_alpaca_credentials_default_paper_witness:
  "snd (snd (get_alpaca_credentials
       [''alpaca'' \<mapsto> [''api_key'' \<mapsto> PStr ''PKTEST'', ''api_secret'' \<mapsto> PNone]]))
     = PStr ''https://paper-api.alpaca.markets''"
  using get_alpaca_credentials_default_paper
    [of "[''alpaca'' \<mapsto> [''api_key'' \<mapsto> PStr ''PKTEST'', ''api_secret'' \<mapsto> PNone]]"
        "[''api_key'' \<mapsto> PStr ''PKTEST'', ''api_secret'' \<mapsto> PNone]"]
  by simp

section \<open>Console output and the HTTP boundary\<close>

text \<open>
  The gateway prints to the console and calls \<open>requests\<close>. Both effects are explicit:
  the state \<open>io\<close> holds the lines printed so far and the HTTP requests sent so far.
  An f-string is kept as its pieces, so that no rendering of numbers or JSON is needed.
\<close>

datatype json = JNull | JBool bool | JNum int | JStr string
  | JArr "json list" | JObj "(string \<times> json) list"

datatype piece = Lit string | Num nat | Val json | PV pyval

type_synonym line = "piece list"

datatype oval = OStr string | OStrOf real | OBool bool

type_synonym order_data = "string \<rightharpoonup> oval"

datatype http_method = GET | POST | DELETE

record http_request =
  req_method :: http_method
  req_url :: string
  req_headers :: "(string \<times> pyval) list"
  req_params :: "(string \<times> piece) list"
  req_data :: "order_data option"

text \<open>
  What one HTTP call does: it raises (with the exception's text), or it returns a
  response with a status code, a body text and the value of \<open>response.json()\<close>
  (\<open>None\<close> when the body is not JSON and \<open>json()\<close> raises).
\<close>

datatype http_outcome = Raised string | Response nat string "json option"

text \<open>The network answers a request depending on the requests sent before it.\<close>

type_synonym network = "http_request list \<Rightarrow> http_request \<Rightarrow> http_outcome"

record io =
  calls :: "http_request list"
  out :: "line list"

definition say :: "line \<Rightarrow> io \<Rightarrow> io" where
  "say l s = s\<lparr>out := out s @ [l]\<rparr>"

definition send :: "network \<Rightarrow> http_request \<Rightarrow> io \<Rightarrow> http_outcome \<times> io" where
  "send net rq s = (net (calls s) rq, s\<lparr>calls := calls s @ [rq]\<rparr>)"

datatype py_exn = AttributeError string

datatype result = RNone | RBool bool | RJson json

section \<open>core/account.py and core/client.py: the brokerage gateway\<close>

record AccountManager =
  am_api_key :: pyval
  am_api_secret :: pyval
  am_base_url :: pyval

definition AccountManager_init :: "config \<Rightarrow> AccountManager" where
  "AccountManager_init cfg =
     (case get_alpaca_credentials cfg of
        (k, s, u) \<Rightarrow> \<lparr>am_api_key = k, am_api_secret = s, am_base_url = u\<rparr>)"

definition is_configured :: "AccountManager \<Rightarrow> bool" where
  "is_configured am \<longleftrightarrow> truthy (am_api_key am) \<and> truthy (am_api_secret am) \<and> truthy (am_base_url am)"

text \<open>
  The client copies the credentials when it is built and defines its three endpoint
  attributes only if the base URL is truthy; \<open>None\<close> stands for an attribute that was
  never set. The account manager is shared and may be configured later.
\<close>

record AlpacaClient =
  account_manager :: AccountManager
  api_key :: pyval
  api_secret :: pyval
  base_url :: pyval
  account_url :: "string option"
  orders_url :: "string option"
  positions_url :: "string option"

definition endpoint :: "pyval \<Rightarrow> string \<Rightarrow> string option" where
  "endpoint u path = (case u of PStr b \<Rightarrow> (if b \<noteq> [] then Some (b @ path) else None) | PNone \<Rightarrow> None)"

definition AlpacaClient_init :: "AccountManager \<Rightarrow> AlpacaClient" where
  "AlpacaClient_init am =
     \<lparr>account_manager = am,
      api_key = am_api_key am,
      api_secret = am_api_secret am,
      base_url = am_base_url am,
      account_url = endpoint (am_base_url am) ''/v2/account'',
      orders_url = endpoint (am_base_url am) ''/v2/orders'',
      positions_url = endpoint (am_base_url am) ''/v2/positions''\<rparr>"

definition headers :: "AlpacaClient \<Rightarrow> (string \<times> pyval) list" where
  "headers c =
     [(''APCA-API-KEY-ID'', api_key c),
      (''APCA-API-SECRET-KEY'', api_secret c),
      (''Content-Type'', PStr ''application/json'')]"

definition not_configured_msg :: line where
  "not_configured_msg = [Lit ''Account not configured. Please configure the account first.'']"

definition no_attribute :: "string \<Rightarrow> string" where
  "no_attribute a = ''AlpacaClient object has no attribute '' @ a"

definition http_get :: "string \<Rightarrow> AlpacaClient \<Rightarrow> (string \<times> piece) list \<Rightarrow> http_request" where
  "http_get url c ps =
     \<lparr>req_method = GET, req_url = url, req_headers = headers c, req_params = ps, req_data = None\<rparr>"

definition http_post :: "string \<Rightarrow> AlpacaClient \<Rightarrow> order_data \<Rightarrow> http_request" where
  "http_post url c d =
     \<lparr>req_method = POST, req_url = url, req_headers = headers c, req_params = [], req_data = Some d\<rparr>"

definition http_delete :: "string \<Rightarrow> AlpacaClient \<Rightarrow> http_request" where
  "http_delete url c =
     \<lparr>req_method = DELETE, req_url = url, req_headers = headers c, req_params = [], req_data = None\<rparr>"

text \<open>
  The common tail of the read operations: status 200 returns the JSON body, any
  other status prints two lines and returns \<open>None\<close>; an exception (of the call or of
  \<open>json()\<close>) is caught, printed after \<open>err\<close> and gives \<open>None\<close>.
\<close>

definition read_json :: "line \<Rightarrow> line \<Rightarrow> http_outcome \<times> io \<Rightarrow> (py_exn + result) \<times> io" where
  "read_json failed err r =
     (case r of
        (Raised e, s) \<Rightarrow> (Inr RNone, say (err @ [Lit e]) s)
      | (Response code body js, s) \<Rightarrow>
          (if code = 200 then
             (case js of
                Some j \<Rightarrow> (Inr (RJson j), s)
              | None \<Rightarrow> (Inr RNone, say (err @ [Lit ''invalid JSON'']) s))
           else (Inr RNone,
                 say [Lit ''Response: '', Lit body]
                   (say (failed @ [Lit ''. Status code: '', Num code]) s))))"

definition get_account :: "network \<Rightarrow> AlpacaClient \<Rightarrow> io \<Rightarrow> (py_exn + result) \<times> io" where
  "get_account net c s =
     (if \<not> is_configured (account_manager c) then (Inr RNone, say not_configured_msg s)
      else (case account_url c of
              None \<Rightarrow> (Inr RNone,
                        say [Lit ''Error getting account information: '', Lit (no_attribute ''account_url'')] s)
            | Some url \<Rightarrow>
                read_json [Lit ''Failed to get account information'']
                  [Lit ''Error getting account information: ''] (send net (http_get url c []) s)))"

definition get_positions :: "network \<Rightarrow> AlpacaClient \<Rightarrow> io \<Rightarrow> (py_exn + result) \<times> io" where
  "get_positions net c s =
     (if \<not> is_configured (account_manager c) then (Inr RNone, say not_configured_msg s)
      else (case positions_url c of
              None \<Rightarrow> (Inr RNone,
                        say [Lit ''Error getting positions: '', Lit (no_attribute ''positions_url'')] s)
            | Some url \<Rightarrow>
                read_json [Lit ''Failed to get positions''] [Lit ''Error getting positions: '']
                  (send net (http_get url c []) s)))"

text \<open>
  \<open>get_position\<close>, \<open>get_order\<close> and \<open>cancel_order\<close> build their URL before the
  \<open>try\<close>: a missing endpoint attribute raises there and is not caught.
\<close>

definition get_position :: "network \<Rightarrow> AlpacaClient \<Rightarrow> string \<Rightarrow> io \<Rightarrow> (py_exn + result) \<times> io" where
  "get_position net c symbol s =
     (if \<not> is_configured (account_manager c) then (Inr RNone, say not_configured_msg s)
      else (case positions_url c of
              None \<Rightarrow> (Inl (AttributeError (no_attribute ''positions_url'')), s)
            | Some base \<Rightarrow>
                (case send net (http_get (base @ ''/'' @ symbol) c []) s of
                   (Response code body js, s') \<Rightarrow>
                     (if code = 404
                      then (Inr RNone, say [Lit ''No position found for '', Lit symbol] s')
                      else read_json [Lit ''Failed to get position for '', Lit symbol]
                             [Lit ''Error getting position for '', Lit symbol, Lit '': '']
                             (Response code body js, s'))
                 | r \<Rightarrow> read_json [Lit ''Failed to get position for '', Lit symbol]
                         [Lit ''Error getting position for '', Lit symbol, Lit '': ''] r)))"

definition get_orders :: "network \<Rightarrow> AlpacaClient \<Rightarrow> pyval \<Rightarrow> nat \<Rightarrow> io \<Rightarrow> (py_exn + result) \<times> io" where
  "get_orders net c status limit s =
     (if \<not> is_configured (account_manager c) then (Inr RNone, say not_configured_msg s)
      else
        (let params = [(''limit'', Num limit)] @ (if truthy status then [(''status'', PV status)] else [])
         in case orders_url c of
              None \<Rightarrow> (Inr RNone,
                        say [Lit ''Error getting orders: '', Lit (no_attribute ''orders_url'')] s)
            | Some url \<Rightarrow>
                read_json [Lit ''Failed to get orders''] [Lit ''Error getting orders: '']
                  (send net (http_get url c params) s)))"

definition get_order :: "network \<Rightarrow> AlpacaClient \<Rightarrow> string \<Rightarrow> io \<Rightarrow> (py_exn + result) \<times> io" where
  "get_order net c order_id s =
     (if \<not> is_configured (account_manager c) then (Inr RNone, say not_configured_msg s)
      else (case orders_url c of
              None \<Rightarrow> (Inl (AttributeError (no_attribute ''orders_url'')), s)
            | Some base \<Rightarrow>
                read_json [Lit ''Failed to get order '', Lit order_id]
                  [Lit ''Error getting order '', Lit order_id, Lit '': '']
                  (send net (http_get (base @ ''/'' @ order_id) c []) s)))"

text \<open>
  \<open>submit_order\<close> accepts 200 and 201 and reads \<open>order_info.get('id')\<close> for its
  message: a JSON body that is not an object raises there, inside the \<open>try\<close>.
\<close>

definition json_get :: "json \<Rightarrow> string \<Rightarrow> json option" where
  "json_get j k =
     (case j of JObj kvs \<Rightarrow> Some (case map_of kvs k of None \<Rightarrow> JNull | Some v \<Rightarrow> v) | _ \<Rightarrow> None)"

definition submit_order :: "network \<Rightarrow> AlpacaClient \<Rightarrow> order_data \<Rightarrow> io \<Rightarrow> (py_exn + result) \<times> io" where
  "submit_order net c order_data s =
     (if \<not> is_configured (account_manager c) then (Inr RNone, say not_configured_msg s)
      else (case orders_url c of
              None \<Rightarrow> (Inr RNone,
                        say [Lit ''Error submitting order: '', Lit (no_attribute ''orders_url'')] s)
            | Some url \<Rightarrow>
                (case send net (http_post url c order_data) s of
                   (Raised e, s') \<Rightarrow> (Inr RNone, say [Lit ''Error submitting order: '', Lit e] s')
                 | (Response code body js, s') \<Rightarrow>
                     (if code = 200 \<or> code = 201 then
                        (case js of
                           None \<Rightarrow> (Inr RNone, say [Lit ''Error submitting order: '', Lit ''invalid JSON''] s')
                         | Some order_info \<Rightarrow>
                             (case json_get order_info ''id'' of
                                None \<Rightarrow> (Inr RNone,
                                          say [Lit ''Error submitting order: '', Lit ''object has no attribute get''] s')
                              | Some i \<Rightarrow> (Inr (RJson order_info),
                                            say [Lit ''Order submitted successfully. Order ID: '', Val i] s')))
                      else (Inr RNone,
                            say [Lit ''Response: '', Lit body]
                              (say [Lit ''Failed to submit order. Status code: '', Num code] s'))))))"

definition cancel_order :: "network \<Rightarrow> AlpacaClient \<Rightarrow> string \<Rightarrow> io \<Rightarrow> (py_exn + result) \<times> io" where
  "cancel_order net c order_id s =
     (if \<not> is_configured (account_manager c) then (Inr (RBool False), say not_configured_msg s)
      else (case orders_url c of
              None \<Rightarrow> (Inl (AttributeError (no_attribute ''orders_url'')), s)
            | Some base \<Rightarrow>
                (case send net (http_delete (base @ ''/'' @ order_id) c) s of
                   (Raised e, s') \<Rightarrow>
                     (Inr (RBool False), say [Lit ''Error cancelling order '', Lit order_id, Lit '': '', Lit e] s')
                 | (Response code body js, s') \<Rightarrow>
                     (if code = 204 then
                        (Inr (RBool True), say [Lit ''Order '', Lit order_id, Lit '' cancelled successfully.''] s')
                      else (Inr (RBool False),
                            say [Lit ''Response: '', Lit body]
                              (say [Lit ''Failed to cancel order '', Lit order_id, Lit ''. Status code: '', Num code] s'))))))"

definition json_len :: "json \<Rightarrow> nat option" where
  "json_len j = (case j of JArr xs \<Rightarrow> Some (length xs) | JObj kvs \<Rightarrow> Some (length kvs)
                 | JStr t \<Rightarrow> Some (length t) | _ \<Rightarrow> None)"

definition cancel_all_orders :: "network \<Rightarrow> AlpacaClient \<Rightarrow> io \<Rightarrow> (py_exn + result) \<times> io" where
  "cancel_all_orders net c s =
     (if \<not> is_configured (account_manager c) then (Inr (RBool False), say not_configured_msg s)
      else (case orders_url c of
              None \<Rightarrow> (Inr (RBool False),
                        say [Lit ''Error cancelling all orders: '', Lit (no_attribute ''orders_url'')] s)
            | Some url \<Rightarrow>
                (case send net (http_delete url c) s of
                   (Raised e, s') \<Rightarrow> (Inr (RBool False), say [Lit ''Error cancelling all orders: '', Lit e] s')
                 | (Response code body js, s') \<Rightarrow>
                     (if code = 207 then
                        (case js of
                           None \<Rightarrow> (Inr (RBool False),
                                     say [Lit ''Error cancelling all orders: '', Lit ''invalid JSON''] s')
                         | Some j \<Rightarrow>
                             (case json_len j of
                                None \<Rightarrow> (Inr (RBool False),
                                          say [Lit ''Error cancelling all orders: '', Lit ''object has no len()''] s')
                              | Some n \<Rightarrow> (Inr (RBool True),
                                            say [Lit ''Cancelled '', Num n, Lit '' orders.''] s')))
                      else (Inr (RBool False),
                            say [Lit ''Response: '', Lit body]
                              (say [Lit ''Failed to cancel all orders. Status code: '', Num code] s'))))))"


subsection \<open>The gateway without credentials\<close>

text \<open>
  The reading of "a structured error result" used to test the documented behaviour:
  a JSON object whose \<open>status\<close> field is \<open>error\<close>.
\<close>

fun structured_error :: "result \<Rightarrow> bool" where
  "structured_error (RJson (JObj kvs)) = (map_of kvs ''status'' = Some (JStr ''error''))"
| "structured_error _ = False"

definition no_credentials :: AccountManager where
  "no_credentials = \<lparr>am_api_key = PNone, am_api_secret = PNone, am_base_url = PNone\<rparr>"

definition unreachable_net :: network where
  "unreachable_net = (\<lambda>history rq. Raised ''connection refused'')"

definition fresh_io :: io where
  "fresh_io = \<lparr>calls = [], out = []\<rparr>"

lemma say_calls: "calls (say l s) = calls s"
  by (simp add: say_def)

lemma say_out: "out (say l s) = out s @ [l]"
  by (simp add: say_def)

text \<open>
  C4 (as the code has it). Every gateway operation invoked while the account is not
  configured sends no HTTP request, raises nothing, prints the one line
  "Account not configured. Please configure the account first." and returns \<open>None\<close>
  (the two cancel operations return \<open>False\<close>).
\<close>

theorem gateway_unconfigured_no_call:
  assumes "\<not> is_configured (account_manager c)"
  shows "get_account net c s = (Inr RNone, say not_configured_msg s)
       \<and> get_positions net c s = (Inr RNone, say not_configured_msg s)
       \<and> get_position net c symbol s = (Inr RNone, say not_configured_msg s)
       \<and> get_orders net c status limit s = (Inr RNone, say not_configured_msg s)
       \<and> get_order net c order_id s = (Inr RNone, say not_configured_msg s)
       \<and> submit_order net c order_data s = (Inr RNone, say not_configured_msg s)
       \<and> cancel_order net c order_id s = (Inr (RBool False), say not_configured_msg s)
       \<and> cancel_all_orders net c s = (Inr (RBool False), say not_configured_msg s)
       \<and> calls (say not_configured_msg s) = calls s"
  using assms
  by (simp add: get_account_def get_positions_def get_position_def get_orders_def
      get_order_def submit_order_def cancel_order_def cancel_all_orders_def say_calls)

theorem gateway_unconfigured_no_call_witness:
  "\<not> is_configured (account_manager (AlpacaClient_init no_credentials))
   \<and> submit_order unreachable_net (AlpacaClient_init no_credentials) Map.empty fresh_io
       = (Inr RNone, \<lparr>calls = [], out = [not_configured_msg]\<rparr>)
   \<and> cancel_order unreachable_net (AlpacaClient_init no_credentials) ''o1'' fresh_io
       = (Inr (RBool False), \<lparr>calls = [], out = [not_configured_msg]\<rparr>)"
proof -
  have h: "\<not> is_configured (account_manager (AlpacaClient_init no_credentials))"
    by (simp add: is_configured_def AlpacaClient_init_def no_credentials_def)
  show ?thesis
    using h gateway_unconfigured_no_call [OF h, where net = unreachable_net
      and s = fresh_io and order_id = "''o1''" and order_data = Map.empty]
    by (simp add: say_def fresh_io_def)
qed

text \<open>
  The result of an unconfigured call is \<open>None\<close>, which is not a structured error
  result: the account snapshot of a client built without credentials.
\<close>

theorem gateway_unconfigured_counterexample:
  "fst (get_account unreachable_net (AlpacaClient_init no_credentials) fresh_io) = Inr RNone
   \<and> \<not> structured_error RNone"
  by (simp add: get_account_def is_configured_def AlpacaClient_init_def no_credentials_def)

section \<open>core/orders.py: OrderManager\<close>

datatype OrderSide = BUY | SELL

datatype OrderType = MARKET | LIMIT | STOP | STOP_LIMIT

datatype TimeInForce = DAY | GTC | OPG | CLS | IOC | FOK

fun side_value :: "OrderSide \<Rightarrow> string" where
  "side_value BUY = ''buy''"
| "side_value SELL = ''sell''"

fun type_value :: "OrderType \<Rightarrow> string" where
  "type_value MARKET = ''market''"
| "type_value LIMIT = ''limit''"
| "type_value STOP = ''stop''"
| "type_value STOP_LIMIT = ''stop_limit''"

fun tif_value :: "TimeInForce \<Rightarrow> string" where
  "tif_value DAY = ''day''"
| "tif_value GTC = ''gtc''"
| "tif_value OPG = ''opg''"
| "tif_value CLS = ''cls''"
| "tif_value IOC = ''ioc''"
| "tif_value FOK = ''fok''"

text \<open>
  Quantities, notional values and prices are numbers or \<open>None\<close>; \<open>str(x)\<close> of a
  number is kept as \<open>OStrOf x\<close>.
\<close>

definition validate_order_parameters :: "string \<Rightarrow> real option \<Rightarrow> real option \<Rightarrow> io \<Rightarrow> bool \<times> io" where
  "validate_order_parameters symbol qty notional s =
     (if symbol = [] then (False, say [Lit ''Symbol is required.''] s)
      else if (qty = None \<and> notional = None) \<or> (qty \<noteq> None \<and> notional \<noteq> None)
        then (False, say [Lit ''Either qty or notional must be provided, but not both.''] s)
      else if (case qty of None \<Rightarrow> False | Some q \<Rightarrow> q \<le> 0)
        then (False, say [Lit ''Quantity must be positive.''] s)
      else if (case notional of None \<Rightarrow> False | Some n \<Rightarrow> n \<le> 0)
        then (False, say [Lit ''Notional value must be positive.''] s)
      else (True, s))"

definition prepare_order_base ::
  "string \<Rightarrow> OrderSide \<Rightarrow> real option \<Rightarrow> real option \<Rightarrow> TimeInForce \<Rightarrow> io \<Rightarrow> order_data option \<times> io" where
  "prepare_order_base symbol side qty notional time_in_force s =
     (case validate_order_parameters symbol qty notional s of
        (False, s') \<Rightarrow> (None, s')
      | (True, s') \<Rightarrow>
          (let order = [''symbol'' \<mapsto> OStr (upper symbol),
                        ''side'' \<mapsto> OStr (side_value side),
                        ''time_in_force'' \<mapsto> OStr (tif_value time_in_force)]
           in (Some (case qty of
                       Some q \<Rightarrow> order(''qty'' \<mapsto> OStrOf q)
                     | None \<Rightarrow>
                         order(''notional'' \<mapsto>
                           (case notional of Some n \<Rightarrow> OStrOf n | None \<Rightarrow> OStr ''None''))), s')))"

definition with_extended_hours :: "bool \<Rightarrow> order_data \<Rightarrow> order_data" where
  "with_extended_hours extended_hours order =
     (if extended_hours then order(''extended_hours'' \<mapsto> OBool True) else order)"

definition market_order ::
  "network \<Rightarrow> AlpacaClient \<Rightarrow> string \<Rightarrow> OrderSide \<Rightarrow> real option \<Rightarrow> real option \<Rightarrow> TimeInForce
   \<Rightarrow> bool \<Rightarrow> io \<Rightarrow> (py_exn + result) \<times> io" where
  "market_order net c symbol side qty notional time_in_force extended_hours s =
     (case prepare_order_base symbol side qty notional time_in_force s of
        (None, s') \<Rightarrow> (Inr RNone, s')
      | (Some order, s') \<Rightarrow>
          submit_order net c
            (with_extended_hours extended_hours (order(''type'' \<mapsto> OStr (type_value MARKET)))) s')"

definition limit_order ::
  "network \<Rightarrow> AlpacaClient \<Rightarrow> string \<Rightarrow> OrderSide \<Rightarrow> real \<Rightarrow> real option \<Rightarrow> real option \<Rightarrow> TimeInForce
   \<Rightarrow> bool \<Rightarrow> io \<Rightarrow> (py_exn + result) \<times> io" where
  "limit_order net c symbol side limit_price qty notional time_in_force extended_hours s =
     (case prepare_order_base symbol side qty notional time_in_force s of
        (None, s') \<Rightarrow> (Inr RNone, s')
      | (Some order, s') \<Rightarrow>
          (if limit_price = 0 \<or> limit_price \<le> 0
           then (Inr RNone, say [Lit ''Limit price must be positive.''] s')
           else submit_order net c
                  (with_extended_hours extended_hours
                     (order(''type'' \<mapsto> OStr (type_value LIMIT), ''limit_price'' \<mapsto> OStrOf limit_price))) s'))"

definition stop_order ::
  "network \<Rightarrow> AlpacaClient \<Rightarrow> string \<Rightarrow> OrderSide \<Rightarrow> real \<Rightarrow> real option \<Rightarrow> real option \<Rightarrow> TimeInForce
   \<Rightarrow> io \<Rightarrow> (py_exn + result) \<times> io" where
  "stop_order net c symbol side stop_price qty notional time_in_force s =
     (case prepare_order_base symbol side qty notional time_in_force s of
        (None, s') \<Rightarrow> (Inr RNone, s')
      | (Some order, s') \<Rightarrow>
          (if stop_price = 0 \<or> stop_price \<le> 0
           then (Inr RNone, say [Lit ''Stop price must be positive.''] s')
           else submit_order net c
                  (order(''type'' \<mapsto> OStr (type_value STOP), ''stop_price'' \<mapsto> OStrOf stop_price)) s'))"

definition stop_limit_order ::
  "network \<Rightarrow> AlpacaClient \<Rightarrow> string \<Rightarrow> OrderSide \<Rightarrow> real \<Rightarrow> real \<Rightarrow> real option \<Rightarrow> real option
   \<Rightarrow> TimeInForce \<Rightarrow> io \<Rightarrow> (py_exn + result) \<times> io" where
  "stop_limit_order net c symbol side stop_price limit_price qty notional time_in_force s =
     (case prepare_order_base symbol side qty notional time_in_force s of
        (None, s') \<Rightarrow> (Inr RNone, s')
      | (Some order, s') \<Rightarrow>
          (if stop_price = 0 \<or> stop_price \<le> 0
           then (Inr RNone, say [Lit ''Stop price must be positive.''] s')
           else if limit_price = 0 \<or> limit_price \<le> 0
           then (Inr RNone, say [Lit ''Limit price must be positive.''] s')
           else submit_order net c
                  (order(''type'' \<mapsto> OStr (type_value STOP_LIMIT),
                         ''stop_price'' \<mapsto> OStrOf stop_price,
                         ''limit_price'' \<mapsto> OStrOf limit_price)) s'))"


section \<open>Regular expressions as \<open>re.search\<close> runs them\<close>

text \<open>
  The patterns of the broker use literals, character classes, optional and repeated
  single characters (greedy and lazy) and capture groups. A pattern is the list of its
  items in order; the matcher below backtracks like \<open>re\<close>: at every choice it
  tries the preferred alternative first (longest for a greedy item, shortest for a lazy
  one) and takes the other one only if the rest of the pattern fails.
\<close>

datatype cset =
    One char        \<comment> \<open>a literal character\<close>
  | NoCase char     \<comment> \<open>a literal character under \<open>re.IGNORECASE\<close>\<close>
  | Space           \<comment> \<open>\<open>\s\<close>\<close>
  | Digit           \<comment> \<open>\<open>\d\<close>\<close>
  | Dot             \<comment> \<open>\<open>.\<close> without \<open>re.DOTALL\<close>\<close>
  | DotAll          \<comment> \<open>\<open>.\<close> with \<open>re.DOTALL\<close>\<close>
  | Quote           \<comment> \<open>\<open>(?:"|\')\<close>\<close>
  | Letter          \<comment> \<open>\<open>[A-Z]\<close> under \<open>re.IGNORECASE\<close>\<close>

datatype item =
    C cset          \<comment> \<open>one character of the class\<close>
  | Opt cset        \<comment> \<open>\<open>x?\<close>\<close>
  | Star cset       \<comment> \<open>\<open>x*\<close>\<close>
  | Plus cset       \<comment> \<open>\<open>x+\<close>\<close>
  | Lazy cset       \<comment> \<open>\<open>x*?\<close>\<close>
  | GOpen           \<comment> \<open>\<open>(\<close>\<close>
  | GClose          \<comment> \<open>\<open>)\<close>\<close>

definition code :: "char \<Rightarrow> nat" where
  "code c = of_char c"

text \<open>
  White space as \<open>str.isspace\<close> and \<open>\s\<close> see it on code points below 256:
  tab to carriage return, the four separators 28 to 31, the space, NEL and the no-break
  space.
\<close>

definition is_space :: "char \<Rightarrow> bool" where
  "is_space c \<longleftrightarrow> (9 \<le> code c \<and> code c \<le> 13) \<or> (28 \<le> code c \<and> code c \<le> 32)
                   \<or> code c = 133 \<or> code c = 160"

definition is_digit :: "char \<Rightarrow> bool" where
  "is_digit c \<longleftrightarrow> 48 \<le> code c \<and> code c \<le> 57"

definition is_letter :: "char \<Rightarrow> bool" where
  "is_letter c \<longleftrightarrow> (65 \<le> code c \<and> code c \<le> 90) \<or> (97 \<le> code c \<and> code c \<le> 122)"

definition dquote :: char where
  "dquote = CHR 0x22"

definition squote :: char where
  "squote = CHR 0x27"

definition newline :: char where
  "newline = CHR 0x0A"

fun in_cset :: "cset \<Rightarrow> char \<Rightarrow> bool" where
  "in_cset (One a) c = (c = a)"
| "in_cset (NoCase a) c = (upper_char c = upper_char a)"
| "in_cset Space c = is_space c"
| "in_cset Digit c = is_digit c"
| "in_cset Dot c = (c \<noteq> newline)"
| "in_cset DotAll c = True"
| "in_cset Quote c = (c = dquote \<or> c = squote)"
| "in_cset Letter c = is_letter c"

text \<open>
  \<open>rmatch p s\<close> matches the pattern \<open>p\<close> at the start of \<open>s\<close>. A successful match
  returns the text that was still unread at every group parenthesis, in pattern order,
  and last the text left after the match.
\<close>

fun rmatch :: "item list \<Rightarrow> string \<Rightarrow> string list option" where
  "rmatch [] s = Some [s]"
| "rmatch (C cs # r) s =
     (case s of [] \<Rightarrow> None | c # t \<Rightarrow> if in_cset cs c then rmatch r t else None)"
| "rmatch (Opt cs # r) s =
     (case s of
        [] \<Rightarrow> rmatch r []
      | c # t \<Rightarrow>
          if in_cset cs c
          then (case rmatch r t of Some ms \<Rightarrow> Some ms | None \<Rightarrow> rmatch r (c # t))
          else rmatch r (c # t))"
| "rmatch (Star cs # r) s =
     (case s of
        [] \<Rightarrow> rmatch r []
      | c # t \<Rightarrow>
          if in_cset cs c
          then (case rmatch (Star cs # r) t of Some ms \<Rightarrow> Some ms | None \<Rightarrow> rmatch r (c # t))
          else rmatch r (c # t))"
| "rmatch (Plus cs # r) s =
     (case s of [] \<Rightarrow> None | c # t \<Rightarrow> if in_cset cs c then rmatch (Star cs # r) t else None)"
| "rmatch (Lazy cs # r) s =
     (case rmatch r s of
        Some ms \<Rightarrow> Some ms
      | None \<Rightarrow>
          (case s of [] \<Rightarrow> None | c # t \<Rightarrow> if in_cset cs c then rmatch (Lazy cs # r) t else None))"
| "rmatch (GOpen # r) s = map_option ((#) s) (rmatch r s)"
| "rmatch (GClose # r) s = map_option ((#) s) (rmatch r s)"

text \<open>\<open>re.search\<close>: the first start position, from the left, at which the pattern matches.\<close>

fun search :: "item list \<Rightarrow> string \<Rightarrow> string list option" where
  "search p [] = rmatch p []"
| "search p (c # t) = (case rmatch p (c # t) of Some ms \<Rightarrow> Some ms | None \<Rightarrow> search p t)"

text \<open>The text read between two positions of a match, each given by what was unread there.\<close>

definition between :: "string \<Rightarrow> string \<Rightarrow> string" where
  "between a b = take (length a - length b) a"

definition lit :: "string \<Rightarrow> item list" where
  "lit s = map (\<lambda>c. C (One c)) s"

definition ilit :: "string \<Rightarrow> item list" where
  "ilit s = map (\<lambda>c. C (NoCase c)) s"

section \<open>String methods\<close>

text \<open>\<open>s.strip()\<close> and \<open>s.strip(chars)\<close>.\<close>

definition strip_with :: "(char \<Rightarrow> bool) \<Rightarrow> string \<Rightarrow> string" where
  "strip_with P s = rev (dropWhile P (rev (dropWhile P s)))"

definition strip :: "string \<Rightarrow> string" where
  "strip s = strip_with is_space s"

definition strip_quotes :: "string \<Rightarrow> string" where
  "strip_quotes s = strip_with (\<lambda>c. c = dquote \<or> c = squote) s"

text \<open>\<open>s.split(sep)\<close> for a one-character separator: always at least one piece.\<close>

fun split_on :: "char \<Rightarrow> string \<Rightarrow> string list" where
  "split_on sep [] = [[]]"
| "split_on sep (c # t) =
     (if c = sep then [] # split_on sep t
      else (case split_on sep t of [] \<Rightarrow> [[c]] | w # ws \<Rightarrow> (c # w) # ws))"

text \<open>
  \<open>int(s)\<close> on a string of decimal digits, as captured by \<open>(\d+)\<close>. CPython refuses
  more than 4300 digits with a \<open>ValueError\<close> (\<open>sys.get_int_max_str_digits()\<close>);
  \<open>None\<close> is that error.
\<close>

definition digit_val :: "char \<Rightarrow> nat" where
  "digit_val c = code c - 48"

definition decimal :: "string \<Rightarrow> nat" where
  "decimal s = foldl (\<lambda>n c. 10 * n + digit_val c) 0 s"

definition max_str_digits :: nat where
  "max_str_digits = 4300"

definition int_of_digits :: "string \<Rightarrow> int option" where
  "int_of_digits s = (if length s > max_str_digits then None else Some (int (decimal s)))"


section \<open>broker/ai_broker.py: AIBroker.extract_action_from_response\<close>

text \<open>
  An action is the dict \<open>{"action": name, "params": {...}}\<close>; a parameter value is an
  \<open>int\<close>, a \<open>str\<close> or \<open>None\<close>. The params dict keeps its insertion order.
\<close>

datatype param = PInt int | PText string | PNull

record Action =
  action :: string
  params :: "(string \<times> param) list"

definition tag_pattern :: "item list" where
  "tag_pattern = lit ''<actions_taken>'' @ [GOpen, Lazy DotAll, GClose] @ lit ''</actions_taken>''"

text \<open>The eight patterns of \<open>action_patterns\<close>, all used with \<open>re.IGNORECASE\<close>.\<close>

definition action_patterns :: "item list list" where
  "action_patterns =
    [ ilit ''buy_stock'' @ [C (One CHR ''(''), Star Space, Opt Quote, GOpen, Lazy Dot, GClose, Opt Quote,
        Star Space, C (One CHR '',''), Star Space, GOpen, Plus Digit, GClose, Star Space, C (One CHR '')'')],
      ilit ''buy_stock'' @ [C (One CHR ''(''), Star Space, Opt Quote, GOpen, Lazy Dot, GClose, Opt Quote,
        Star Space, C (One CHR '',''), Star Space] @ ilit ''quantity'' @ [Star Space, C (One CHR ''=''),
        Star Space, GOpen, Plus Digit, GClose, Star Space, C (One CHR '')'')],
      ilit ''buy_stock'' @ [C (One CHR ''(''), Star Space] @ ilit ''symbol'' @ [Star Space,
        C (One CHR ''=''), Star Space, Opt Quote, GOpen, Lazy Dot, GClose, Opt Quote,
        Star Space, C (One CHR '',''), Star Space] @ ilit ''quantity'' @ [Star Space, C (One CHR ''=''),
        Star Space, GOpen, Plus Digit, GClose, Star Space, C (One CHR '')'')],
      ilit ''buy'' @ [Plus Space, GOpen, Plus Digit, GClose, Plus Space] @ ilit ''share''
        @ [Opt (NoCase CHR ''s''), Plus Space] @ ilit ''of'' @ [Plus Space, GOpen, Plus Letter, GClose],
      ilit ''buy'' @ [Plus Space, GOpen, Plus Letter, GClose, Plus Space, GOpen, Plus Digit, GClose,
        Plus Space] @ ilit ''share'' @ [Opt (NoCase CHR ''s'')],
      ilit ''get_stock_price'' @ [C (One CHR ''(''), Star Space, Opt Quote, GOpen, Lazy Dot, GClose,
        Opt Quote, Star Space, C (One CHR '')'')],
      ilit ''get_stock_price'' @ [C (One CHR ''(''), Star Space] @ ilit ''symbol'' @ [Star Space,
        C (One CHR ''=''), Star Space, Opt Quote, GOpen, Lazy Dot, GClose, Opt Quote, Star Space,
        C (One CHR '')'')],
      ilit ''get_account_info'' @ [C (One CHR ''(''), Star Space, C (One CHR '')'')] ]"

text \<open>
  The body of the \<open>try\<close> in the buy loop: symbol and quantity from the two groups of a
  match of pattern \<open>pattern_index\<close>. \<open>None\<close> is the \<open>ValueError\<close> or
  \<open>IndexError\<close> that the \<open>except\<close> clause answers with \<open>continue\<close>.
\<close>

definition buy_candidate :: "nat \<Rightarrow> string list \<Rightarrow> (string \<times> int) option" where
  "buy_candidate pattern_index ms =
     (case ms of
        [a, b, c, d, e] \<Rightarrow>
          (let g1 = between a b; g2 = between c d in
           if pattern_index \<le> 2 then
             map_option (\<lambda>quantity. (upper (strip_quotes (strip g1)), quantity)) (int_of_digits g2)
           else if pattern_index = 3 then
             map_option (\<lambda>quantity. (upper (strip g2), quantity)) (int_of_digits g1)
           else
             map_option (\<lambda>quantity. (upper (strip g1), quantity)) (int_of_digits g2))
      | _ \<Rightarrow> None)"

definition buy_action :: "string \<Rightarrow> int \<Rightarrow> Action" where
  "buy_action symbol quantity =
     \<lparr>action = ''buy_stock'', params = [(''symbol'', PText symbol), (''quantity'', PInt quantity)]\<rparr>"

definition price_action :: "string \<Rightarrow> Action" where
  "price_action symbol = \<lparr>action = ''get_stock_price'', params = [(''symbol'', PText symbol)]\<rparr>"

definition account_action :: Action where
  "account_action = \<lparr>action = ''get_account_info'', params = []\<rparr>"

text \<open>
  The loop over the buy patterns: a pattern that does not match the line is passed
  over; a match whose values do not parse continues with the next pattern; any other
  match ends the loop, with an action only if symbol and quantity are valid.
\<close>

fun buy_loop :: "nat list \<Rightarrow> string \<Rightarrow> Action list" where
  "buy_loop [] line = []"
| "buy_loop (pattern_index # rest) line =
     (case search (action_patterns ! pattern_index) line of
        None \<Rightarrow> buy_loop rest line
      | Some ms \<Rightarrow>
          (case buy_candidate pattern_index ms of
             None \<Rightarrow> buy_loop rest line
           | Some (symbol, quantity) \<Rightarrow>
               if symbol \<noteq> [] \<and> quantity > 0 then [buy_action symbol quantity] else []))"

definition price_candidate :: "string list \<Rightarrow> string option" where
  "price_candidate ms =
     (case ms of [a, b, e] \<Rightarrow> Some (upper (strip_quotes (strip (between a b)))) | _ \<Rightarrow> None)"

fun price_loop :: "nat list \<Rightarrow> string \<Rightarrow> Action list" where
  "price_loop [] line = []"
| "price_loop (pattern_index # rest) line =
     (case search (action_patterns ! pattern_index) line of
        None \<Rightarrow> price_loop rest line
      | Some ms \<Rightarrow>
          (case price_candidate ms of
             None \<Rightarrow> price_loop rest line
           | Some symbol \<Rightarrow> if symbol \<noteq> [] then [price_action symbol] else []))"

definition account_check :: "string \<Rightarrow> Action list" where
  "account_check line =
     (if search (action_patterns ! 7) line \<noteq> None then [account_action] else [])"

text \<open>What one non-blank, stripped line of the actions section appends to \<open>actions\<close>.\<close>

definition process_line :: "string \<Rightarrow> Action list" where
  "process_line line = buy_loop [0, 1, 2, 3, 4] line @ price_loop [5, 6] line @ account_check line"

definition process_lines :: "string \<Rightarrow> Action list" where
  "process_lines actions_text =
     concat (map process_line (filter (\<lambda>line. line \<noteq> []) (map strip (split_on newline actions_text))))"

definition extract_action_from_response :: "string \<Rightarrow> Action list" where
  "extract_action_from_response response =
     (case search tag_pattern response of
        None \<Rightarrow> []
      | Some ms \<Rightarrow>
          (case ms of
             [a, b, e] \<Rightarrow> process_lines (strip (between a b))
           | _ \<Rightarrow> []))"


subsection \<open>Facts about the matcher\<close>


lemma rmatch_lit:
  "rmatch (lit p @ r) s = (if prefix p s then rmatch r (drop (length p) s) else None)"
proof (induction p arbitrary: s)
  case Nil
  then show ?case by (simp add: lit_def)
next
  case (Cons a p)
  have step: "rmatch (lit (a # p) @ r) s =
      (case s of [] \<Rightarrow> None | c # t \<Rightarrow> if c = a then rmatch (lit p @ r) t else None)"
    by (cases s) (simp_all add: lit_def)
  show ?case
  proof (cases s)
    case Nil
    then show ?thesis using step by simp
  next
    case (Cons c t)
    then show ?thesis using step Cons.IH [of t] by auto
  qed
qed

lemma lazy_found:
  "rmatch r s = Some ms \<Longrightarrow> rmatch (Lazy cs # r) s = Some ms"
  by simp

lemma lazy_skip:
  assumes "\<forall>i < length xs. rmatch r (drop i (xs @ s)) = None"
  shows "rmatch (Lazy DotAll # r) (xs @ s) = rmatch (Lazy DotAll # r) s"
  using assms
proof (induction xs)
  case Nil
  then show ?case by simp
next
  case (Cons x xs)
  have a0: "rmatch r ((x # xs) @ s) = None"
    using Cons.prems by (metis drop0 length_greater_0_conv list.discI)
  have rest: "\<forall>i < length xs. rmatch r (drop i (xs @ s)) = None"
  proof (intro allI impI)
    fix i assume "i < length xs"
    then have "Suc i < length (x # xs)" by simp
    then have "rmatch r (drop (Suc i) ((x # xs) @ s)) = None" using Cons.prems by blast
    then show "rmatch r (drop i (xs @ s)) = None" by simp
  qed
  have "rmatch (Lazy DotAll # r) ((x # xs) @ s) = rmatch (Lazy DotAll # r) (xs @ s)"
    using a0 by simp
  then show ?case using Cons.IH [OF rest] by simp
qed

lemma search_found: "rmatch p s = Some ms \<Longrightarrow> search p s = Some ms"
  by (cases s) simp_all

lemma search_skip:
  assumes "\<forall>i < length xs. rmatch p (drop i (xs @ s)) = None"
  shows "search p (xs @ s) = search p s"
  using assms
proof (induction xs)
  case Nil
  then show ?case by simp
next
  case (Cons x xs)
  have a0: "rmatch p ((x # xs) @ s) = None"
    using Cons.prems by (metis drop0 length_greater_0_conv list.discI)
  have rest: "\<forall>i < length xs. rmatch p (drop i (xs @ s)) = None"
  proof (intro allI impI)
    fix i assume "i < length xs"
    then have "Suc i < length (x # xs)" by simp
    then have "rmatch p (drop (Suc i) ((x # xs) @ s)) = None" using Cons.prems by blast
    then show "rmatch p (drop i (xs @ s)) = None" by simp
  qed
  have "search p ((x # xs) @ s) = search p (xs @ s)"
    using a0 by simp
  then show ?case using Cons.IH [OF rest] by simp
qed

text \<open>A pattern whose first character occurs nowhere else in it cannot straddle.\<close>

lemma no_early_occurrence:
  assumes nosub: "\<not> sublist (c # p) xs" and fresh: "c \<notin> set p" and i: "i < length xs"
  shows "\<not> prefix (c # p) (drop i (xs @ (c # p) @ rest))"
proof
  assume pre: "prefix (c # p) (drop i (xs @ (c # p) @ rest))"
  let ?d = "drop i xs"
  have d: "drop i (xs @ (c # p) @ rest) = ?d @ (c # p) @ rest" using i by simp
  have dne: "?d \<noteq> []" using i by simp
  show False
  proof (cases "length (c # p) \<le> length ?d")
    case True
    then have "prefix (c # p) ?d" using pre d
      by (metis prefix_length_prefix append_prefixD prefix_order.order_refl prefix_append)
    then have "sublist (c # p) xs"
      by (metis sublist_def prefix_def append_take_drop_id append.assoc append_Nil)
    then show ?thesis using nosub by simp
  next
    case False
    then have len: "length ?d < length (c # p)" by simp
    have "(c # p) ! length ?d = (?d @ (c # p) @ rest) ! length ?d"
      using pre d len by (metis prefix_def nth_append)
    also have "\<dots> = c" by (simp add: nth_append)
    finally have "(c # p) ! length ?d = c" .
    moreover have "0 < length ?d" using dne by simp
    ultimately have "p ! (length ?d - 1) = c" by (simp add: nth_Cons')
    moreover have "length ?d - 1 < length p" using len dne by (cases ?d) auto
    ultimately show ?thesis using fresh by (metis nth_mem)
  qed
qed


subsection \<open>The actions section is the first tagged block\<close>

definition OPEN :: string where
  "OPEN = ''<actions_taken>''"
definition CLOSE :: string where
  "CLOSE = ''</actions_taken>''"

lemma tag_pattern_alt: "tag_pattern = lit OPEN @ [GOpen, Lazy DotAll, GClose] @ lit CLOSE"
  by (simp add: tag_pattern_def OPEN_def CLOSE_def)

lemma rmatch_close:
  "rmatch (GClose # lit CLOSE) t = (if prefix CLOSE t then Some [t, drop (length CLOSE) t] else None)"
  using rmatch_lit [of CLOSE "[]" t] by simp

lemma rmatch_tag_here:
  assumes "\<not> sublist CLOSE body"
  shows "rmatch tag_pattern (OPEN @ body @ CLOSE @ rest) = Some [body @ CLOSE @ rest, CLOSE @ rest, rest]"
proof -
  have none: "\<forall>i < length body. rmatch (GClose # lit CLOSE) (drop i (body @ CLOSE @ rest)) = None"
  proof (intro allI impI)
    fix i assume i: "i < length body"
    have "\<not> prefix CLOSE (drop i (body @ CLOSE @ rest))"
      using no_early_occurrence [of "CHR ''<''" "''/actions_taken>''" body i rest] assms i
      by (simp add: CLOSE_def)
    then show "rmatch (GClose # lit CLOSE) (drop i (body @ CLOSE @ rest)) = None"
      by (simp only: rmatch_close if_False)
  qed
  have "rmatch (Lazy DotAll # GClose # lit CLOSE) (body @ CLOSE @ rest)
        = rmatch (Lazy DotAll # GClose # lit CLOSE) (CLOSE @ rest)"
    by (rule lazy_skip [OF none])
  also have "\<dots> = Some [CLOSE @ rest, rest]"
    by (rule lazy_found) (simp only: rmatch_close, simp)
  finally have inner: "rmatch (Lazy DotAll # GClose # lit CLOSE) (body @ CLOSE @ rest) = Some [CLOSE @ rest, rest]" .
  have "rmatch tag_pattern (OPEN @ body @ CLOSE @ rest)
        = rmatch (GOpen # Lazy DotAll # GClose # lit CLOSE) (body @ CLOSE @ rest)"
    unfolding tag_pattern_alt using rmatch_lit [of OPEN _ "OPEN @ body @ CLOSE @ rest"] by simp
  then show ?thesis using inner by simp
qed

lemma rmatch_tag_needs_open: "\<not> prefix OPEN s \<Longrightarrow> rmatch tag_pattern s = None"
  unfolding tag_pattern_alt using rmatch_lit [of OPEN _ s] by simp

lemma search_tag:
  assumes "\<not> sublist OPEN pre" and "\<not> sublist CLOSE body"
  shows "search tag_pattern (pre @ OPEN @ body @ CLOSE @ rest)
         = Some [body @ CLOSE @ rest, CLOSE @ rest, rest]"
proof -
  have none: "\<forall>i < length pre. rmatch tag_pattern (drop i (pre @ OPEN @ body @ CLOSE @ rest)) = None"
  proof (intro allI impI)
    fix i assume i: "i < length pre"
    have "\<not> prefix OPEN (drop i (pre @ OPEN @ (body @ CLOSE @ rest)))"
      using no_early_occurrence [of "CHR ''<''" "''actions_taken>''" pre i "body @ CLOSE @ rest"] assms(1) i
      by (simp add: OPEN_def)
    then show "rmatch tag_pattern (drop i (pre @ OPEN @ body @ CLOSE @ rest)) = None"
      by (rule rmatch_tag_needs_open)
  qed
  have "search tag_pattern (pre @ OPEN @ body @ CLOSE @ rest) = search tag_pattern (OPEN @ body @ CLOSE @ rest)"
    by (rule search_skip [OF none])
  then show ?thesis using search_found [OF rmatch_tag_here [OF assms(2)]] by simp
qed

lemma extract_first_block:
  assumes "\<not> sublist OPEN pre" and "\<not> sublist CLOSE body"
  shows "extract_action_from_response (pre @ OPEN @ body @ CLOSE @ rest) = process_lines (strip body)"
  by (simp add: extract_action_from_response_def search_tag [OF assms] between_def)


definition aapl_call :: string where
  \<open>aapl_call = ''buy_stock("AAPL", 10)''\<close>

lemma aapl_call_no_close: "\<not> sublist CLOSE aapl_call"
  by (simp add: CLOSE_def aapl_call_def sublist_Cons_right)

lemma aapl_call_lines: "process_lines (strip aapl_call) = [buy_action ''AAPL'' 10]"
  by code_simp

text \<open>
  C1 (as the code has it). For every text in which the block
  \<open><actions_taken>buy_stock("AAPL", 10)</actions_taken>\<close> is preceded by no other
  \<open><actions_taken>\<close> tag, the extractor returns exactly the one action
  \<open>{action: buy_stock, params: {symbol: "AAPL", quantity: 10}}\<close>, whatever follows
  the block.
\<close>

theorem extract_aapl_block:
  assumes "\<not> sublist ''<actions_taken>'' pre"
  shows \<open>extract_action_from_response
           (pre @ ''<actions_taken>buy_stock("AAPL", 10)</actions_taken>'' @ post)
         = [\<lparr>action = ''buy_stock'', params = [(''symbol'', PText ''AAPL''), (''quantity'', PInt 10)]\<rparr>]\<close>
proof -
  have split: \<open>pre @ ''<actions_taken>buy_stock("AAPL", 10)</actions_taken>'' @ post
               = pre @ OPEN @ aapl_call @ CLOSE @ post\<close>
    by (simp add: OPEN_def CLOSE_def aapl_call_def)
  have "\<not> sublist OPEN pre" using assms by (simp add: OPEN_def)
  then have "extract_action_from_response (pre @ OPEN @ aapl_call @ CLOSE @ post)
             = process_lines (strip aapl_call)"
    using aapl_call_no_close by (rule extract_first_block)
  then show ?thesis
    by (simp only: split aapl_call_lines buy_action_def)
qed

theorem extract_aapl_block_witness:
  \<open>\<not> sublist ''<actions_taken>'' ''Sure. '' \<and>
   extract_action_from_response
     (''Sure. '' @ ''<actions_taken>buy_stock("AAPL", 10)</actions_taken>'' @ '' Done.'')
   = [\<lparr>action = ''buy_stock'', params = [(''symbol'', PText ''AAPL''), (''quantity'', PInt 10)]\<rparr>]\<close>
proof -
  have h: "\<not> sublist ''<actions_taken>'' ''Sure. ''"
    by (simp add: sublist_Cons_right)
  show ?thesis
    using h extract_aapl_block [OF h, of "'' Done.''"] by blast
qed

text \<open>
  The block alone does not decide the result: a text that contains it after an earlier
  actions section yields the actions of the earlier section only.
\<close>

theorem extract_aapl_block_counterexample:
  \<open>sublist ''<actions_taken>buy_stock("AAPL", 10)</actions_taken>''
     (''<actions_taken>get_account_info()</actions_taken>''
        @ ''<actions_taken>buy_stock("AAPL", 10)</actions_taken>'')
   \<and> extract_action_from_response
        (''<actions_taken>get_account_info()</actions_taken>''
           @ ''<actions_taken>buy_stock("AAPL", 10)</actions_taken>'')
      = [\<lparr>action = ''get_account_info'', params = []\<rparr>]\<close>
proof
  show \<open>sublist ''<actions_taken>buy_stock("AAPL", 10)</actions_taken>''
     (''<actions_taken>get_account_info()</actions_taken>''
        @ ''<actions_taken>buy_stock("AAPL", 10)</actions_taken>'')\<close>
    by (metis sublist_appendI append_Nil2)
  show \<open>extract_action_from_response
        (''<actions_taken>get_account_info()</actions_taken>''
           @ ''<actions_taken>buy_stock("AAPL", 10)</actions_taken>'')
      = [\<lparr>action = ''get_account_info'', params = []\<rparr>]\<close>
    by code_simp
qed

text \<open>
  C9. Of a text with more than one \<open><actions_taken>...</actions_taken>\<close> block only
  the first (leftmost) one is parsed: with \<open>pre\<close> the text before the first opening
  tag and \<open>body\<close> the text up to the first closing tag after it, the result is that of
  the lines of \<open>body\<close>, and it is the same whatever follows the block, later blocks
  included.
\<close>

theorem extract_first_block_only:
  assumes "\<not> sublist ''<actions_taken>'' pre" and "\<not> sublist ''</actions_taken>'' body"
  shows "extract_action_from_response (pre @ ''<actions_taken>'' @ body @ ''</actions_taken>'' @ rest)
         = process_lines (strip body)
       \<and> extract_action_from_response (pre @ ''<actions_taken>'' @ body @ ''</actions_taken>'' @ rest)
         = extract_action_from_response (pre @ ''<actions_taken>'' @ body @ ''</actions_taken>'')"
proof -
  have a: "\<not> sublist OPEN pre" and b: "\<not> sublist CLOSE body"
    using assms by (simp_all add: OPEN_def CLOSE_def)
  have "extract_action_from_response (pre @ OPEN @ body @ CLOSE @ rest) = process_lines (strip body)"
    and "extract_action_from_response (pre @ OPEN @ body @ CLOSE @ []) = process_lines (strip body)"
    using a b by (rule extract_first_block)+
  then show ?thesis by (simp add: OPEN_def CLOSE_def)
qed


theorem extract_first_block_only_witness:
  \<open>\<not> sublist ''<actions_taken>'' ''ok '' \<and> \<not> sublist ''</actions_taken>'' ''get_account_info()''
   \<and> extract_action_from_response
        (''ok '' @ ''<actions_taken>'' @ ''get_account_info()'' @ ''</actions_taken>''
           @ ''<actions_taken>buy_stock("AAPL", 10)</actions_taken>'')
      = [\<lparr>action = ''get_account_info'', params = []\<rparr>]\<close>
proof -
  have h1: "\<not> sublist ''<actions_taken>'' ''ok ''"
    by (simp add: sublist_Cons_right)
  have h2: "\<not> sublist ''</actions_taken>'' ''get_account_info()''"
    by (simp add: sublist_Cons_right)
  have lines: "process_lines (strip ''get_account_info()'') = [\<lparr>action = ''get_account_info'', params = []\<rparr>]"
    by code_simp
  show ?thesis
    using h1 h2 lines
      extract_first_block_only [OF h1 h2, of \<open>''<actions_taken>buy_stock("AAPL", 10)</actions_taken>''\<close>]
    by simp
qed


subsection \<open>One line of the actions section\<close>


definition is_buy :: "Action \<Rightarrow> bool" where
  "is_buy a \<longleftrightarrow> action a = ''buy_stock''"

definition is_price :: "Action \<Rightarrow> bool" where
  "is_price a \<longleftrightarrow> action a = ''get_stock_price''"

definition is_account :: "Action \<Rightarrow> bool" where
  "is_account a \<longleftrightarrow> action a = ''get_account_info''"

definition buy_or_price :: "Action \<Rightarrow> bool" where
  "buy_or_price a \<longleftrightarrow> is_buy a \<or> is_price a"

text \<open>
  A buy pattern is passed over on a line when it does not match or when the values of
  its match do not parse.
\<close>

definition buy_passed :: "nat \<Rightarrow> string \<Rightarrow> bool" where
  "buy_passed pattern_index line =
     (case search (action_patterns ! pattern_index) line of
        None \<Rightarrow> True
      | Some ms \<Rightarrow> buy_candidate pattern_index ms = None)"

definition price_passed :: "nat \<Rightarrow> string \<Rightarrow> bool" where
  "price_passed pattern_index line =
     (case search (action_patterns ! pattern_index) line of
        None \<Rightarrow> True
      | Some ms \<Rightarrow> price_candidate ms = None)"

lemma buy_loop_cases:
  "buy_loop ixs line = [] \<or> (\<exists>symbol q. buy_loop ixs line = [buy_action symbol q] \<and> symbol \<noteq> [] \<and> 0 < q)"
  by (induction ixs) (auto split: option.splits)

lemma price_loop_cases:
  "price_loop ixs line = [] \<or> (\<exists>symbol. price_loop ixs line = [price_action symbol] \<and> symbol \<noteq> [])"
  by (induction ixs) (auto split: option.splits)

lemma kinds [simp]:
  "is_buy (buy_action symbol q)" "\<not> is_price (buy_action symbol q)" "\<not> is_account (buy_action symbol q)"
  "\<not> is_buy (price_action symbol)" "is_price (price_action symbol)" "\<not> is_account (price_action symbol)"
  "\<not> is_buy account_action" "\<not> is_price account_action" "is_account account_action"
  by (simp_all add: is_buy_def is_price_def is_account_def buy_action_def price_action_def
      account_action_def)

lemma filter_buy: "filter is_buy (process_line line) = buy_loop [0, 1, 2, 3, 4] line"
  using buy_loop_cases [of "[0, 1, 2, 3, 4]" line] price_loop_cases [of "[5, 6]" line]
  by (auto simp: process_line_def account_check_def)

lemma filter_price: "filter is_price (process_line line) = price_loop [5, 6] line"
  using buy_loop_cases [of "[0, 1, 2, 3, 4]" line] price_loop_cases [of "[5, 6]" line]
  by (auto simp: process_line_def account_check_def)

lemma filter_account: "filter is_account (process_line line) = account_check line"
  using buy_loop_cases [of "[0, 1, 2, 3, 4]" line] price_loop_cases [of "[5, 6]" line]
  by (auto simp: process_line_def account_check_def)

lemma buy_loop_first:
  assumes "\<forall>j \<in> set pre. buy_passed j line"
    and "search (action_patterns ! i) line = Some ms"
    and "buy_candidate i ms = Some (symbol, q)"
  shows "buy_loop (pre @ i # rest) line = (if symbol \<noteq> [] \<and> 0 < q then [buy_action symbol q] else [])"
  using assms
  by (induction pre) (auto simp: buy_passed_def split: option.splits)

lemma price_loop_first:
  assumes "\<forall>j \<in> set pre. price_passed j line"
    and "search (action_patterns ! i) line = Some ms"
    and "price_candidate ms = Some symbol"
  shows "price_loop (pre @ i # rest) line = (if symbol \<noteq> [] then [price_action symbol] else [])"
  using assms
  by (induction pre) (auto simp: price_passed_def split: option.splits)

lemma buy_loop_winner:
  assumes "i < 5" and "\<forall>j < i. buy_passed j line"
    and "search (action_patterns ! i) line = Some ms"
    and "buy_candidate i ms = Some (symbol, q)"
  shows "buy_loop [0, 1, 2, 3, 4] line = (if symbol \<noteq> [] \<and> 0 < q then [buy_action symbol q] else [])"
proof -
  from \<open>i < 5\<close> consider "i = 0" | "i = 1" | "i = 2" | "i = 3" | "i = 4" by linarith
  then show ?thesis
  proof cases
    case 1
    then show ?thesis using buy_loop_first [of "[]" line i ms symbol q "[1, 2, 3, 4]"] assms by simp
  next
    case 2
    then show ?thesis using buy_loop_first [of "[0]" line i ms symbol q "[2, 3, 4]"] assms by simp
  next
    case 3
    then show ?thesis using buy_loop_first [of "[0, 1]" line i ms symbol q "[3, 4]"] assms by simp
  next
    case 4
    then show ?thesis using buy_loop_first [of "[0, 1, 2]" line i ms symbol q "[4]"] assms by simp
  next
    case 5
    then show ?thesis using buy_loop_first [of "[0, 1, 2, 3]" line i ms symbol q "[]"] assms by simp
  qed
qed

lemma price_loop_winner:
  assumes "k = 5 \<or> (k = 6 \<and> price_passed 5 line)"
    and "search (action_patterns ! k) line = Some ms"
    and "price_candidate ms = Some symbol"
  shows "price_loop [5, 6] line = (if symbol \<noteq> [] then [price_action symbol] else [])"
  using assms(1)
proof
  assume "k = 5"
  then show ?thesis using price_loop_first [of "[]" line k ms symbol "[6]"] assms by simp
next
  assume "k = 6 \<and> price_passed 5 line"
  then show ?thesis using price_loop_first [of "[5]" line k ms symbol "[]"] assms by simp
qed

text \<open>
  C6 (as the code has it). The buy patterns and the price patterns are two separate
  loops. A line yields at most one \<open>buy_stock\<close> action and at most one
  \<open>get_stock_price\<close> action: in each group the first pattern, in the fixed order,
  that matches and whose values parse decides, and the later patterns of the group are
  not tried. A \<open>get_account_info\<close> action is added exactly when the account pattern
  matches the line, whatever the two loops did.
\<close>

theorem process_line_one_per_group:
  "length (filter is_buy (process_line line)) \<le> 1
   \<and> length (filter is_price (process_line line)) \<le> 1
   \<and> length (filter is_account (process_line line)) \<le> 1
   \<and> (filter is_account (process_line line) = [account_action])
       = (search (action_patterns ! 7) line \<noteq> None)
   \<and> (i < 5 \<and> (\<forall>j < i. buy_passed j line) \<and> search (action_patterns ! i) line = Some ms
        \<and> buy_candidate i ms = Some (symbol, q)
      \<longrightarrow> filter is_buy (process_line line) = (if symbol \<noteq> [] \<and> 0 < q then [buy_action symbol q] else []))
   \<and> ((k = 5 \<or> (k = 6 \<and> price_passed 5 line)) \<and> search (action_patterns ! k) line = Some ms'
        \<and> price_candidate ms' = Some psymbol
      \<longrightarrow> filter is_price (process_line line) = (if psymbol \<noteq> [] then [price_action psymbol] else []))"
proof (intro conjI impI)
  show "length (filter is_buy (process_line line)) \<le> 1"
    using buy_loop_cases [of "[0, 1, 2, 3, 4]" line] by (auto simp: filter_buy)
  show "length (filter is_price (process_line line)) \<le> 1"
    using price_loop_cases [of "[5, 6]" line] by (auto simp: filter_price)
  show "length (filter is_account (process_line line)) \<le> 1"
    by (simp add: filter_account account_check_def)
  show "(filter is_account (process_line line) = [account_action])
        = (search (action_patterns ! 7) line \<noteq> None)"
    by (simp add: filter_account account_check_def)
next
  assume "i < 5 \<and> (\<forall>j < i. buy_passed j line) \<and> search (action_patterns ! i) line = Some ms
        \<and> buy_candidate i ms = Some (symbol, q)"
  then show "filter is_buy (process_line line) = (if symbol \<noteq> [] \<and> 0 < q then [buy_action symbol q] else [])"
    using buy_loop_winner [of i line ms symbol q] by (simp add: filter_buy)
next
  assume "(k = 5 \<or> (k = 6 \<and> price_passed 5 line)) \<and> search (action_patterns ! k) line = Some ms'
        \<and> price_candidate ms' = Some psymbol"
  then show "filter is_price (process_line line) = (if psymbol \<noteq> [] then [price_action psymbol] else [])"
    using price_loop_winner [of k line ms' psymbol] by (simp add: filter_price)
qed


definition demo_line :: string where
  "demo_line = ''buy_stock(AAPL, quantity=10) get_stock_price(MSFT) get_account_info()''"

theorem process_line_one_per_group_witness:
  "buy_passed 0 demo_line
   \<and> search (action_patterns ! 1) demo_line
       = Some [''AAPL, quantity=10) get_stock_price(MSFT) get_account_info()'',
               '', quantity=10) get_stock_price(MSFT) get_account_info()'',
               ''10) get_stock_price(MSFT) get_account_info()'',
               '') get_stock_price(MSFT) get_account_info()'',
               '' get_stock_price(MSFT) get_account_info()'']
   \<and> filter is_buy (process_line demo_line) = [buy_action ''AAPL'' 10]
   \<and> filter is_price (process_line demo_line) = [price_action ''MSFT'']
   \<and> filter is_account (process_line demo_line) = [account_action]"
proof -
  let ?ms = "[''AAPL, quantity=10) get_stock_price(MSFT) get_account_info()'',
               '', quantity=10) get_stock_price(MSFT) get_account_info()'',
               ''10) get_stock_price(MSFT) get_account_info()'',
               '') get_stock_price(MSFT) get_account_info()'',
               '' get_stock_price(MSFT) get_account_info()'']"
  let ?ms' = "[''MSFT) get_account_info()'', '') get_account_info()'', '' get_account_info()'']"
  have p0: "buy_passed 0 demo_line" by code_simp
  have p1: "search (action_patterns ! 1) demo_line = Some ?ms" by code_simp
  have c1: "buy_candidate 1 ?ms = Some (''AAPL'', 10)" by code_simp
  have p5: "search (action_patterns ! 5) demo_line = Some ?ms'" by code_simp
  have c5: "price_candidate ?ms' = Some ''MSFT''" by code_simp
  have p7: "search (action_patterns ! 7) demo_line \<noteq> None" by code_simp
  have all0: "\<forall>j < (1::nat). buy_passed j demo_line" using p0 by simp
  show ?thesis
    using process_line_one_per_group [of demo_line 1 ?ms "''AAPL''" 10 5 ?ms' "''MSFT''"]
      p0 p1 c1 p5 c5 p7 all0
    by simp
qed

text \<open>One line with a buy call and a price call yields two buy-or-price actions.\<close>

theorem process_line_one_per_group_counterexample:
  \<open>extract_action_from_response
      ''<actions_taken>buy_stock("AAPL", 10) get_stock_price("AAPL")</actions_taken>''
    = [buy_action ''AAPL'' 10, price_action ''AAPL'']
   \<and> length (filter buy_or_price [buy_action ''AAPL'' 10, price_action ''AAPL'']) = 2\<close>
proof
  show \<open>extract_action_from_response
      ''<actions_taken>buy_stock("AAPL", 10) get_stock_price("AAPL")</actions_taken>''
    = [buy_action ''AAPL'' 10, price_action ''AAPL'']\<close>
    by code_simp
  show "length (filter buy_or_price [buy_action ''AAPL'' 10, price_action ''AAPL'']) = 2"
    by (simp add: buy_or_price_def)
qed

lemma buy_candidate_nonneg: "buy_candidate i ms = Some (symbol, q) \<Longrightarrow> 0 \<le> q"
  by (auto simp: buy_candidate_def int_of_digits_def Let_def split: list.splits if_splits)

lemma process_line_buy:
  assumes "a \<in> set (process_line line)" and "is_buy a"
  shows "\<exists>symbol q. a = buy_action symbol q \<and> symbol \<noteq> [] \<and> 0 < q"
proof -
  have "a \<in> set (filter is_buy (process_line line))" using assms by simp
  then have "a \<in> set (buy_loop [0, 1, 2, 3, 4] line)" by (simp only: filter_buy)
  then show ?thesis using buy_loop_cases [of "[0, 1, 2, 3, 4]" line]
    by (metis empty_iff empty_set set_ConsD)
qed

lemma process_lines_buy:
  assumes "a \<in> set (process_lines block)" and "is_buy a"
  shows "\<exists>symbol q. a = buy_action symbol q \<and> symbol \<noteq> [] \<and> 0 < q"
  using assms process_line_buy by (auto simp: process_lines_def)

lemma extract_buy:
  assumes "a \<in> set (extract_action_from_response response)" and "is_buy a"
  shows "\<exists>symbol q. a = buy_action symbol q \<and> symbol \<noteq> [] \<and> 0 < q"
proof (cases "search tag_pattern response")
  case None
  then show ?thesis using assms by (simp add: extract_action_from_response_def)
next
  case (Some ms)
  then obtain block where "a \<in> set (process_lines block)"
    using assms(1) by (auto simp: extract_action_from_response_def split: list.splits)
  then show ?thesis using assms(2) by (rule process_lines_buy)
qed

definition zero_line :: string where
  \<open>zero_line = ''buy_stock("AAPL", 0)''\<close>

subsection \<open>Where the quantity group of a buy pattern sits\<close>

text \<open>The number of group parentheses of a pattern.\<close>

definition marks :: "item list \<Rightarrow> nat" where
  "marks p = length (filter (\<lambda>x. x = GOpen \<or> x = GClose) p)"

lemma rmatch_star:
  "rmatch (Star cs # r) s = Some ms \<Longrightarrow>
   \<exists>k \<le> length s. (\<forall>c \<in> set (take k s). in_cset cs c) \<and> rmatch r (drop k s) = Some ms"
proof (induction s)
  case Nil
  then show ?case by simp
next
  case (Cons c t)
  show ?case
  proof (cases "in_cset cs c \<and> rmatch (Star cs # r) t = Some ms")
    case True
    then obtain k where "k \<le> length t" "\<forall>c \<in> set (take k t). in_cset cs c"
      "rmatch r (drop k t) = Some ms"
      using Cons.IH by blast
    then show ?thesis using True by (intro exI [of _ "Suc k"]) simp
  next
    case False
    then have "rmatch r (c # t) = Some ms"
      using Cons.prems by (auto split: if_splits option.splits)
    then show ?thesis by (intro exI [of _ 0]) simp
  qed
qed

lemma rmatch_lazy:
  "rmatch (Lazy cs # r) s = Some ms \<Longrightarrow> \<exists>k \<le> length s. rmatch r (drop k s) = Some ms"
proof (induction s)
  case Nil
  then show ?case by (simp split: option.splits)
next
  case (Cons c t)
  show ?case
  proof (cases "rmatch r (c # t)")
    case (Some ms0)
    then show ?thesis using Cons.prems by (intro exI [of _ 0]) simp
  next
    case None
    then have "rmatch (Lazy cs # r) t = Some ms"
      using Cons.prems by (simp split: if_splits)
    then obtain k where "k \<le> length t" "rmatch r (drop k t) = Some ms"
      using Cons.IH by blast
    then show ?thesis by (intro exI [of _ "Suc k"]) simp
  qed
qed

lemma rmatch_step:
  "rmatch (x # q) s = Some ms \<Longrightarrow>
   \<exists>k \<le> length s. rmatch q (drop k s) = Some (drop (marks [x]) ms)"
proof (cases x)
  case (C cs)
  assume a: "rmatch (x # q) s = Some ms"
  then obtain c t where "s = c # t" "rmatch q t = Some ms"
    using C by (cases s) (auto split: if_splits)
  then show ?thesis using C by (intro exI [of _ 1]) (simp add: marks_def)
next
  case (Opt cs)
  assume a: "rmatch (x # q) s = Some ms"
  show ?thesis
  proof (cases "rmatch q s = Some ms")
    case True
    then show ?thesis using Opt by (intro exI [of _ 0]) (simp add: marks_def)
  next
    case False
    then obtain c t where "s = c # t" "rmatch q t = Some ms"
      using a Opt by (cases s) (auto split: if_splits option.splits)
    then show ?thesis using Opt by (intro exI [of _ 1]) (simp add: marks_def)
  qed
next
  case (Star cs)
  assume a: "rmatch (x # q) s = Some ms"
  then show ?thesis using rmatch_star [of cs q s ms] Star by (auto simp: marks_def)
next
  case (Plus cs)
  assume a: "rmatch (x # q) s = Some ms"
  then obtain c t where s: "s = c # t" and "rmatch (Star cs # q) t = Some ms"
    using Plus by (cases s) (auto split: if_splits)
  then obtain k where "k \<le> length t" "rmatch q (drop k t) = Some ms"
    using rmatch_star by blast
  then show ?thesis using Plus s by (intro exI [of _ "Suc k"]) (simp add: marks_def)
next
  case (Lazy cs)
  assume a: "rmatch (x # q) s = Some ms"
  then show ?thesis using rmatch_lazy [of cs q s ms] Lazy by (auto simp: marks_def)
next
  case GOpen
  assume a: "rmatch (x # q) s = Some ms"
  then show ?thesis using GOpen by (intro exI [of _ 0]) (auto simp: marks_def)
next
  case GClose
  assume a: "rmatch (x # q) s = Some ms"
  then show ?thesis using GClose by (intro exI [of _ 0]) (auto simp: marks_def)
qed

lemma marks_Cons: "marks (x # p) = marks [x] + marks p"
  by (simp add: marks_def)

text \<open>
  A match of \<open>p @ r\<close> contains a match of \<open>r\<close> at some later position of the text,
  with the marks of \<open>r\<close>.
\<close>

lemma rmatch_continue:
  "rmatch (p @ r) s = Some ms \<Longrightarrow>
   \<exists>k \<le> length s. rmatch r (drop k s) = Some (drop (marks p) ms)"
proof (induction p arbitrary: s ms)
  case Nil
  then show ?case by (intro exI [of _ 0]) (simp add: marks_def)
next
  case (Cons x p)
  from Cons.prems obtain j where j: "j \<le> length s"
    and m: "rmatch (p @ r) (drop j s) = Some (drop (marks [x]) ms)"
    using rmatch_step [of x "p @ r" s ms] by auto
  from Cons.IH [OF m] obtain k where k: "k \<le> length (drop j s)"
    and r: "rmatch r (drop k (drop j s)) = Some (drop (marks p) (drop (marks [x]) ms))"
    by blast
  have "rmatch r (drop (j + k) s) = Some (drop (marks (x # p)) ms)"
    using r by (simp add: marks_Cons [of x p] add.commute)
  moreover have "j + k \<le> length s" using j k by simp
  ultimately show ?case by blast
qed

lemma rmatch_length: "rmatch p s = Some ms \<Longrightarrow> length ms = Suc (marks p)"
proof (induction p arbitrary: s ms)
  case Nil
  then show ?case by (auto simp: marks_def)
next
  case (Cons x p)
  from Cons.prems obtain k where m: "rmatch p (drop k s) = Some (drop (marks [x]) ms)"
    using rmatch_step [of x p s ms] by auto
  have l: "length (drop (marks [x]) ms) = Suc (marks p)" using Cons.IH [OF m] .
  then show ?case by (simp add: marks_Cons [of x p])
qed

lemma search_at:
  "search p s = Some ms \<Longrightarrow> \<exists>k \<le> length s. rmatch p (drop k s) = Some ms"
proof (induction s)
  case Nil
  then show ?case by simp
next
  case (Cons c t)
  show ?case
  proof (cases "rmatch p (c # t)")
    case (Some ms0)
    then show ?thesis using Cons.prems by (intro exI [of _ 0]) simp
  next
    case None
    then obtain k where "k \<le> length t" "rmatch p (drop k t) = Some ms"
      using Cons by auto
    then show ?thesis by (intro exI [of _ "Suc k"]) simp
  qed
qed

text \<open>The group \<open>(\d+)\<close>: a run of digits, at least one.\<close>

lemma rmatch_digits:
  assumes "rmatch (GOpen # Plus Digit # GClose # r) s = Some ms"
  shows "\<exists>d rest. ms = s # d # rest \<and> between s d \<noteq> [] \<and> list_all is_digit (between s d)"
proof -
  from assms obtain ms1 where ms: "ms = s # ms1" and a: "rmatch (Plus Digit # GClose # r) s = Some ms1"
    by auto
  from a obtain c t where s: "s = c # t" and c: "is_digit c"
    and b: "rmatch (Star Digit # GClose # r) t = Some ms1"
    by (cases s) (auto split: if_splits)
  from rmatch_star [OF b] obtain k where k: "k \<le> length t"
    and ds: "\<forall>c \<in> set (take k t). is_digit c"
    and g: "rmatch (GClose # r) (drop k t) = Some ms1"
    by auto
  from g obtain rest where ms1: "ms1 = drop k t # rest" by auto
  have bt: "between s (drop k t) = c # take k t"
    using k by (simp add: between_def s Suc_diff_le)
  have "between s (drop k t) \<noteq> []" and "list_all is_digit (between s (drop k t))"
    using c ds by (simp_all add: bt list_all_iff)
  then show ?thesis using ms ms1 by blast
qed

text \<open>The character before the quantity group is the separator or white space.\<close>

definition separator :: "char \<Rightarrow> bool" where
  "separator c \<longleftrightarrow> c = CHR '','' \<or> c = CHR ''='' \<or> is_space c"

lemma after_char:
  assumes "rmatch (C (One c0) # Star Space # r) s = Some ms"
  shows "\<exists>u t. s = u @ t \<and> u \<noteq> [] \<and> (last u = c0 \<or> is_space (last u)) \<and> rmatch r t = Some ms"
proof -
  from assms obtain t where s: "s = c0 # t" and a: "rmatch (Star Space # r) t = Some ms"
    by (cases s) (auto split: if_splits)
  from rmatch_star [OF a] obtain k where k: "k \<le> length t"
    and sp: "\<forall>c \<in> set (take k t). is_space c" and r: "rmatch r (drop k t) = Some ms"
    by auto
  let ?u = "c0 # take k t"
  have "s = ?u @ drop k t" using s by simp
  moreover have "last ?u = c0 \<or> is_space (last ?u)"
    using sp by (cases "take k t = []") auto
  ultimately show ?thesis using r by blast
qed

lemma after_spaces:
  assumes "rmatch (Plus Space # r) s = Some ms"
  shows "\<exists>u t. s = u @ t \<and> u \<noteq> [] \<and> is_space (last u) \<and> rmatch r t = Some ms"
proof -
  from assms obtain c t where s: "s = c # t" and c: "is_space c"
    and a: "rmatch (Star Space # r) t = Some ms"
    by (cases s) (auto split: if_splits)
  from rmatch_star [OF a] obtain k where k: "k \<le> length t"
    and sp: "\<forall>c \<in> set (take k t). is_space c" and r: "rmatch r (drop k t) = Some ms"
    by auto
  let ?u = "c # take k t"
  have "s = ?u @ drop k t" using s by simp
  moreover have "is_space (last ?u)"
    using sp c by (cases "take k t = []") auto
  ultimately show ?thesis using r by blast
qed

text \<open>
  A pattern \<open>p @ sep @ (\d+) @ r\<close> whose separator \<open>sep\<close> is a comma or an equals
  sign with optional white space, or white space: found in a line, the quantity group
  opens after a separator character and is a run of digits.
\<close>

definition sep_items :: "item list \<Rightarrow> bool" where
  "sep_items sep \<longleftrightarrow> sep = [C (One CHR '',''), Star Space] \<or> sep = [C (One CHR ''=''), Star Space]
                     \<or> sep = [Plus Space]"

lemma quantity_group:
  assumes "search (p @ sep @ GOpen # Plus Digit # GClose # r) line = Some ms" and "sep_items sep"
  shows "\<exists>u c d. line = u @ c \<and> u \<noteq> [] \<and> separator (last u)
           \<and> ms ! marks p = c \<and> ms ! Suc (marks p) = d \<and> Suc (marks p) < length ms
           \<and> between c d \<noteq> [] \<and> list_all is_digit (between c d)"
proof -
  let ?g = "GOpen # Plus Digit # GClose # r"
  from search_at [OF assms(1)] obtain k where k: "k \<le> length line"
    and m: "rmatch (p @ sep @ ?g) (drop k line) = Some ms"
    by blast
  from rmatch_continue [OF m] obtain j where j: "j \<le> length (drop k line)"
    and n: "rmatch (sep @ ?g) (drop j (drop k line)) = Some (drop (marks p) ms)"
    by blast
  have len: "length ms = Suc (marks (p @ sep @ ?g))" using m by (rule rmatch_length)
  consider (comma) "sep = [C (One CHR '',''), Star Space]"
    | (equals) "sep = [C (One CHR ''=''), Star Space]"
    | (spaces) "sep = [Plus Space]"
    using assms(2) unfolding sep_items_def by blast
  then have "\<exists>u t. drop j (drop k line) = u @ t \<and> u \<noteq> [] \<and> separator (last u)
          \<and> rmatch ?g t = Some (drop (marks p) ms)"
  proof cases
    case comma
    have "rmatch (C (One CHR '','') # Star Space # ?g) (drop j (drop k line))
          = Some (drop (marks p) ms)"
      using n unfolding comma by simp
    from after_char [OF this] show ?thesis unfolding separator_def by blast
  next
    case equals
    have "rmatch (C (One CHR ''='') # Star Space # ?g) (drop j (drop k line))
          = Some (drop (marks p) ms)"
      using n unfolding equals by simp
    from after_char [OF this] show ?thesis unfolding separator_def by blast
  next
    case spaces
    have "rmatch (Plus Space # ?g) (drop j (drop k line)) = Some (drop (marks p) ms)"
      using n unfolding spaces by simp
    from after_spaces [OF this] show ?thesis unfolding separator_def by blast
  qed
  then obtain u t where ut: "drop j (drop k line) = u @ t" and u: "u \<noteq> []" "separator (last u)"
    and g: "rmatch ?g t = Some (drop (marks p) ms)"
    by blast
  from rmatch_digits [OF g] obtain d rest where dr: "drop (marks p) ms = t # d # rest"
    and dg: "between t d \<noteq> []" "list_all is_digit (between t d)"
    by blast
  have l2: "Suc (marks p) < length ms" unfolding len by (simp add: marks_def)
  have "drop (marks p) ms ! 0 = ms ! (marks p + 0)" and "drop (marks p) ms ! 1 = ms ! (marks p + 1)"
    using l2 by simp_all
  then have c: "ms ! marks p = t" and d: "ms ! Suc (marks p) = d"
    unfolding dr by simp_all
  have "drop (j + k) line = u @ t" using ut by (simp add: add.commute)
  then have "take (j + k) line @ u @ t = line" by (metis append_take_drop_id)
  then have "line = (take (j + k) line @ u) @ t" by simp
  moreover have "take (j + k) line @ u \<noteq> []" "separator (last (take (j + k) line @ u))"
    using u by simp_all
  ultimately show ?thesis using c d l2 dg by blast
qed

text \<open>
  The quantity is \<open>match.group(2)\<close>, for the pattern \<open>buy N shares of SYMBOL\<close>
  (index 3) \<open>match.group(1)\<close>: the position of its opening parenthesis among the
  marks of a match, the text of the group, and the text of the line before the group.
\<close>

definition quantity_at :: "nat \<Rightarrow> nat" where
  "quantity_at pattern_index = (if pattern_index = 3 then 0 else 2)"

definition quantity_text :: "nat \<Rightarrow> string list \<Rightarrow> string" where
  "quantity_text pattern_index ms
     = between (ms ! quantity_at pattern_index) (ms ! Suc (quantity_at pattern_index))"

definition before_quantity :: "nat \<Rightarrow> string list \<Rightarrow> string \<Rightarrow> string" where
  "before_quantity pattern_index ms line
     = take (length line - length (ms ! quantity_at pattern_index)) line"

lemma buy_pattern_split:
  assumes "i < 5"
  shows "\<exists>p sep r. action_patterns ! i = p @ sep @ GOpen # Plus Digit # GClose # r
           \<and> sep_items sep \<and> marks p = quantity_at i
           \<and> marks (action_patterns ! i) = 4"
proof -
  from assms consider "i = 0" | "i = 1" | "i = 2" | "i = 3" | "i = 4" by linarith
  then show ?thesis
  proof cases
    case 1
    show ?thesis
      unfolding 1
      by (rule exI [of _ "ilit ''buy_stock'' @ [C (One CHR ''(''), Star Space, Opt Quote, GOpen,
            Lazy Dot, GClose, Opt Quote, Star Space]"],
          rule exI [of _ "[C (One CHR '',''), Star Space]"],
          rule exI [of _ "[Star Space, C (One CHR '')'')]"])
         (simp add: action_patterns_def ilit_def marks_def sep_items_def quantity_at_def)
  next
    case 2
    show ?thesis
      unfolding 2
      by (rule exI [of _ "ilit ''buy_stock'' @ [C (One CHR ''(''), Star Space, Opt Quote, GOpen,
            Lazy Dot, GClose, Opt Quote, Star Space, C (One CHR '',''), Star Space]
            @ ilit ''quantity'' @ [Star Space]"],
          rule exI [of _ "[C (One CHR ''=''), Star Space]"],
          rule exI [of _ "[Star Space, C (One CHR '')'')]"])
         (simp add: action_patterns_def ilit_def marks_def sep_items_def quantity_at_def)
  next
    case 3
    show ?thesis
      unfolding 3
      by (rule exI [of _ "ilit ''buy_stock'' @ [C (One CHR ''(''), Star Space] @ ilit ''symbol''
            @ [Star Space, C (One CHR ''=''), Star Space, Opt Quote, GOpen, Lazy Dot, GClose,
               Opt Quote, Star Space, C (One CHR '',''), Star Space]
            @ ilit ''quantity'' @ [Star Space]"],
          rule exI [of _ "[C (One CHR ''=''), Star Space]"],
          rule exI [of _ "[Star Space, C (One CHR '')'')]"])
         (simp add: action_patterns_def ilit_def marks_def sep_items_def quantity_at_def)
  next
    case 4
    show ?thesis
      unfolding 4
      by (rule exI [of _ "ilit ''buy''"],
          rule exI [of _ "[Plus Space]"],
          rule exI [of _ "[Plus Space] @ ilit ''share'' @ [Opt (NoCase CHR ''s''), Plus Space]
            @ ilit ''of'' @ [Plus Space, GOpen, Plus Letter, GClose]"])
         (simp add: action_patterns_def ilit_def marks_def sep_items_def quantity_at_def)
  next
    case 5
    show ?thesis
      unfolding 5
      by (rule exI [of _ "ilit ''buy'' @ [Plus Space, GOpen, Plus Letter, GClose]"],
          rule exI [of _ "[Plus Space]"],
          rule exI [of _ "[Plus Space] @ ilit ''share'' @ [Opt (NoCase CHR ''s'')]"])
         (simp add: action_patterns_def ilit_def marks_def sep_items_def quantity_at_def)
  qed
qed

lemma minus_no_separator: "separator c \<Longrightarrow> c \<noteq> CHR ''-''"
  by (auto simp: separator_def is_space_def code_def)

lemma buy_quantity_read:
  assumes "length ms = 5"
  shows "map_option snd (buy_candidate i ms) = int_of_digits (quantity_text i ms)"
proof -
  from assms obtain a b c d e where ms: "ms = [a, b, c, d, e]"
    by (auto simp: length_Suc_conv eval_nat_numeral)
  show ?thesis
    unfolding ms buy_candidate_def quantity_text_def quantity_at_def Let_def
    by (cases "int_of_digits (between a b)"; cases "int_of_digits (between c d)") simp_all
qed

lemma buy_quantity_group:
  assumes "i < 5" and "search (action_patterns ! i) line = Some ms"
  shows "line = before_quantity i ms line @ ms ! quantity_at i
       \<and> before_quantity i ms line \<noteq> []
       \<and> separator (last (before_quantity i ms line))
       \<and> quantity_text i ms \<noteq> [] \<and> list_all is_digit (quantity_text i ms)
       \<and> length ms = 5"
proof -
  from buy_pattern_split [OF assms(1)] obtain p sep r
    where sp: "action_patterns ! i = p @ sep @ GOpen # Plus Digit # GClose # r"
      and sep: "sep_items sep" and mp: "marks p = quantity_at i"
      and m4: "marks (action_patterns ! i) = 4"
    by blast
  from search_at [OF assms(2)] obtain k where "rmatch (action_patterns ! i) (drop k line) = Some ms"
    by blast
  then have len: "length ms = 5" using rmatch_length m4 by fastforce
  have s: "search (p @ sep @ GOpen # Plus Digit # GClose # r) line = Some ms"
    using assms(2) sp by simp
  from quantity_group [OF s sep] obtain u c d where l: "line = u @ c" and u: "u \<noteq> []"
    and su: "separator (last u)" and c: "ms ! marks p = c" and d: "ms ! Suc (marks p) = d"
    and dg: "between c d \<noteq> []" "list_all is_digit (between c d)"
    by blast
  have b: "before_quantity i ms line = u"
    unfolding before_quantity_def using c l mp by simp
  have q: "quantity_text i ms = between c d"
    unfolding quantity_text_def using c d mp by simp
  have "line = before_quantity i ms line @ ms ! quantity_at i"
    unfolding b using l c mp by simp
  then show ?thesis using u su dg len unfolding b q by blast
qed

definition minus_line :: string where
  \<open>minus_line = ''buy_stock("AAPL", -5)''\<close>

definition both_line :: string where
  \<open>both_line = ''Buy 0 shares of AAPL, buy_stock("MSFT", 5)''\<close>

text \<open>
  C7 (as the code has it). The buy patterns are tried in their fixed order, and the
  first one that matches the line and whose values parse decides: when it carries the
  quantity 0, no \<open>buy_stock\<close> action is emitted for the line. Whatever a buy pattern
  matches, its quantity group is a run of decimal digits, at least one, and the
  character of the line just before the group is a comma, an equals sign or white
  space, never a minus sign; the quantity carried is \<open>int\<close> of these digits, so it is
  never negative. Every \<open>buy_stock\<close> action the extractor returns has a positive
  quantity.
\<close>

theorem no_buy_for_nonpositive_quantity:
  "(i < 5 \<and> (\<forall>j < i. buy_passed j line) \<and> search (action_patterns ! i) line = Some ms
      \<and> buy_candidate i ms = Some (symbol, q) \<and> q \<le> 0
    \<longrightarrow> filter is_buy (process_line line) = [])
   \<and> (i < 5 \<and> search (action_patterns ! i) line = Some ms
    \<longrightarrow> line = before_quantity i ms line @ ms ! quantity_at i
        \<and> before_quantity i ms line \<noteq> []
        \<and> separator (last (before_quantity i ms line))
        \<and> last (before_quantity i ms line) \<noteq> CHR ''-''
        \<and> quantity_text i ms \<noteq> [] \<and> list_all is_digit (quantity_text i ms)
        \<and> map_option snd (buy_candidate i ms) = int_of_digits (quantity_text i ms))
   \<and> (buy_candidate i ms = Some (symbol, q) \<longrightarrow> 0 \<le> q)
   \<and> (\<forall>a \<in> set (extract_action_from_response response).
         is_buy a \<longrightarrow> (\<exists>s n. a = buy_action s n \<and> 0 < n))"
proof (intro conjI impI ballI)
  assume "i < 5 \<and> (\<forall>j < i. buy_passed j line) \<and> search (action_patterns ! i) line = Some ms
      \<and> buy_candidate i ms = Some (symbol, q) \<and> q \<le> 0"
  then show "filter is_buy (process_line line) = []"
    using buy_loop_winner [of i line ms symbol q] by (simp add: filter_buy)
next
  assume a: "i < 5 \<and> search (action_patterns ! i) line = Some ms"
  then have g: "line = before_quantity i ms line @ ms ! quantity_at i
       \<and> before_quantity i ms line \<noteq> []
       \<and> separator (last (before_quantity i ms line))
       \<and> quantity_text i ms \<noteq> [] \<and> list_all is_digit (quantity_text i ms)
       \<and> length ms = 5"
    using buy_quantity_group [of i line ms] by blast
  show "line = before_quantity i ms line @ ms ! quantity_at i" using g by blast
  show "before_quantity i ms line \<noteq> []" using g by blast
  show "separator (last (before_quantity i ms line))" using g by blast
  then show "last (before_quantity i ms line) \<noteq> CHR ''-''" by (rule minus_no_separator)
  show "quantity_text i ms \<noteq> []" using g by blast
  show "list_all is_digit (quantity_text i ms)" using g by blast
  show "map_option snd (buy_candidate i ms) = int_of_digits (quantity_text i ms)"
    using g buy_quantity_read by blast
next
  assume "buy_candidate i ms = Some (symbol, q)"
  then show "0 \<le> q" by (rule buy_candidate_nonneg)
next
  fix a assume "a \<in> set (extract_action_from_response response)" and "is_buy a"
  then show "\<exists>s n. a = buy_action s n \<and> 0 < n" using extract_buy by blast
qed

theorem no_buy_for_nonpositive_quantity_witness:
  \<open>search (action_patterns ! 0) zero_line = Some [''AAPL", 0)'', ''", 0)'', ''0)'', '')'', []]
   \<and> buy_candidate 0 [''AAPL", 0)'', ''", 0)'', ''0)'', '')'', []] = Some (''AAPL'', 0)
   \<and> filter is_buy (process_line zero_line) = []
   \<and> extract_action_from_response ''<actions_taken>buy_stock("AAPL", 0)</actions_taken>'' = []
   \<and> before_quantity 0 [''AAPL", 0)'', ''", 0)'', ''0)'', '')'', []] zero_line = ''buy_stock("AAPL", ''
   \<and> quantity_text 0 [''AAPL", 0)'', ''", 0)'', ''0)'', '')'', []] = ''0''
   \<and> separator (last (before_quantity 0 [''AAPL", 0)'', ''", 0)'', ''0)'', '')'', []] zero_line))
   \<and> map (\<lambda>i. search (action_patterns ! i) minus_line) [0, 1, 2, 3, 4]
       = [None, None, None, None, None]
   \<and> process_line minus_line = []\<close>
proof -
  let ?ms = \<open>[''AAPL", 0)'', ''", 0)'', ''0)'', '')'', []]\<close>
  have p0: "search (action_patterns ! 0) zero_line = Some ?ms" by code_simp
  have c0: "buy_candidate 0 ?ms = Some (''AAPL'', 0)" by code_simp
  have ex: \<open>extract_action_from_response ''<actions_taken>buy_stock("AAPL", 0)</actions_taken>'' = []\<close>
    by code_simp
  have bq: \<open>before_quantity 0 ?ms zero_line = ''buy_stock("AAPL", ''\<close> by code_simp
  have qt: \<open>quantity_text 0 ?ms = ''0''\<close> by code_simp
  have m: "map (\<lambda>i. search (action_patterns ! i) minus_line) [0, 1, 2, 3, 4]
       = [None, None, None, None, None]"
    by code_simp
  have pm: "process_line minus_line = []" by code_simp
  note t = no_buy_for_nonpositive_quantity [of 0 zero_line ?ms "''AAPL''" 0]
  have first: "filter is_buy (process_line zero_line) = []"
    using t [THEN conjunct1] p0 c0 by simp
  have sep: "separator (last (before_quantity 0 ?ms zero_line))"
    using t [THEN conjunct2, THEN conjunct1] p0 by simp
  show ?thesis
    by (intro conjI) (rule p0 c0 first ex bq qt sep m pm)+
qed

text \<open>
  C7 as the specification words it fails on a line where two buy patterns match: the
  pattern \<open>buy N shares of SYMBOL\<close> carries the quantity 0, but the pattern
  \<open>buy_stock(SYMBOL, N)\<close> comes first in the order and decides, so a \<open>buy_stock\<close>
  action is emitted for the line.
\<close>

theorem no_buy_for_nonpositive_quantity_counterexample:
  \<open>map_option (buy_candidate 3) (search (action_patterns ! 3) both_line) = Some (Some (''AAPL'', 0))
   \<and> process_line both_line = [buy_action ''MSFT'' 5]
   \<and> extract_action_from_response
        ''<actions_taken>Buy 0 shares of AAPL, buy_stock("MSFT", 5)</actions_taken>''
      = [buy_action ''MSFT'' 5]\<close>
  by code_simp

section \<open>broker/ai_broker.py: the SDK boundary\<close>

text \<open>
  The broker talks to Alpaca through the SDK's \<open>TradingClient\<close> and
  \<open>StockHistoricalDataClient\<close>. A call raises (\<open>Inl\<close> with the exception's text) or
  returns an SDK object; the answer may depend on the calls made before, which are the
  state of the outside world.
\<close>

datatype TimeFrame = Day | Hour | Minute

record StockBarsRequest =
  symbol_or_symbols :: string
  timeframe :: TimeFrame
  start_days_ago :: nat
  limit :: nat

text \<open>
  A bar as the broker reads it: \<open>float(bar.close)\<close> and its siblings give a number or
  raise (\<open>None\<close>); \<open>str(bar.timestamp)\<close> always gives a string.
\<close>

record bar =
  bar_close :: "real option"
  bar_open :: "real option"
  bar_timestamp :: string
  bar_volume :: "real option"

text \<open>The two response shapes the code accepts: an object with \<open>.data\<close>, or a plain dict.\<close>

datatype bars = BarSet "string \<rightharpoonup> bar list" | BarDict "string \<rightharpoonup> bar list"

text \<open>
  \<open>MarketOrderRequest\<close> of the SDK declares \<open>qty\<close> and \<open>notional\<close> as optional
  fields that default to \<open>None\<close>.
\<close>

record MarketOrderRequest =
  mo_symbol :: string
  mo_qty :: "int option"
  mo_notional :: "real option"
  mo_side :: OrderSide
  mo_time_in_force :: TimeInForce

record Order =
  order_id :: string
  client_order_id :: string
  order_symbol :: string
  order_side :: string
  order_type :: string
  order_status :: string
  submitted_at :: "string option"
  filled_at :: "string option"
  filled_qty :: "real option"
  filled_avg_price :: "real option"
  order_qty :: "real option"
  order_notional :: "real option"
  order_time_in_force :: string

record TradeAccount =
  equity :: real
  cash :: real
  buying_power :: real
  daytrade_count :: int
  account_status :: string

text \<open>
  The calls of the SDK. The SDK also offers \<open>cancel_order_by_id\<close>; it is listed so
  that "no order is cancelled" can be said of a call log.
\<close>

datatype sdk_call =
    GetStockBars StockBarsRequest
  | SubmitOrder MarketOrderRequest
  | GetAccount
  | CancelOrderById string

record sdk =
  sdk_get_stock_bars :: "sdk_call list \<Rightarrow> StockBarsRequest \<Rightarrow> string + bars"
  sdk_submit_order :: "sdk_call list \<Rightarrow> MarketOrderRequest \<Rightarrow> string + Order"
  sdk_get_account :: "sdk_call list \<Rightarrow> string + TradeAccount"

text \<open>Result dicts keep their insertion order; assigning to a present key replaces its value.\<close>

datatype rv = VNone | VBool bool | VNum real | VInt int | VStr string | VDict "(string \<times> rv) list"

type_synonym rdict = "(string \<times> rv) list"

fun dict_set :: "('k \<times> 'v) list \<Rightarrow> 'k \<Rightarrow> 'v \<Rightarrow> ('k \<times> 'v) list" where
  "dict_set [] k v = [(k, v)]"
| "dict_set ((k', v') # d) k v = (if k' = k then (k, v) # d else (k', v') # dict_set d k v)"

text \<open>A dict display \<open>{k1: v1, k2: v2, ...}\<close>, evaluated left to right.\<close>

definition dict_lit :: "('k \<times> 'v) list \<Rightarrow> ('k \<times> 'v) list" where
  "dict_lit kvs = foldl (\<lambda>d (k, v). dict_set d k v) [] kvs"

definition has_key :: "('k \<times> 'v) list \<Rightarrow> 'k \<Rightarrow> bool" where
  "has_key d k \<longleftrightarrow> k \<in> fst ` set d"

section \<open>AIBroker: market data\<close>

definition bars_request :: "string \<Rightarrow> TimeFrame \<Rightarrow> nat \<Rightarrow> nat \<Rightarrow> StockBarsRequest" where
  "bars_request symbol tf days n =
     \<lparr>symbol_or_symbols = symbol, timeframe = tf, start_days_ago = days, limit = n\<rparr>"

text \<open>
  \<open>bars.data[symbol][-1]\<close> or \<open>bars[symbol][-1]\<close>: the last bar for the symbol, if
  the response has the symbol and its list is not empty.
\<close>

definition latest_bar :: "bars \<Rightarrow> string \<Rightarrow> bar option" where
  "latest_bar r symbol =
     (case (case r of BarSet d \<Rightarrow> d symbol | BarDict d \<Rightarrow> d symbol) of
        None \<Rightarrow> None
      | Some bs \<Rightarrow> (if bs = [] then None else Some (last bs)))"

text \<open>
  The loop both \<open>get_market_data\<close> and \<open>get_stock_price\<close> contain: one request
  per timeframe, in the order of the list, with a lookback of 30 days and \<open>limit=1\<close>.
  A request that raises, a response without a bar for the symbol, and a bar whose fields
  do not read (\<open>rd\<close> gives \<open>None\<close>) all continue with the next timeframe; the first
  bar that reads ends the loop.
\<close>

fun first_bar ::
  "sdk \<Rightarrow> string \<Rightarrow> (bar \<Rightarrow> 'a option) \<Rightarrow> TimeFrame list \<Rightarrow> sdk_call list
   \<Rightarrow> (TimeFrame \<times> 'a) option \<times> sdk_call list" where
  "first_bar api symbol rd [] hist = (None, hist)"
| "first_bar api symbol rd (tf # tfs) hist =
     (let rq = bars_request symbol tf 30 1; hist' = hist @ [GetStockBars rq] in
      case sdk_get_stock_bars api hist rq of
        Inl e \<Rightarrow> first_bar api symbol rd tfs hist'
      | Inr r \<Rightarrow>
          (case latest_bar r symbol of
             None \<Rightarrow> first_bar api symbol rd tfs hist'
           | Some b \<Rightarrow>
               (case rd b of
                  None \<Rightarrow> first_bar api symbol rd tfs hist'
                | Some x \<Rightarrow> (Some (tf, x), hist'))))"

definition read_market_bar :: "bar \<Rightarrow> rdict option" where
  "read_market_bar b =
     (case (bar_close b, bar_open b, bar_volume b) of
        (Some close, Some open_price, Some volume) \<Rightarrow>
          Some [(''price'', VNum close), (''change'', VNum (close - open_price)),
                (''volume'', VNum volume), (''timestamp'', VStr (bar_timestamp b))]
      | _ \<Rightarrow> None)"

definition no_data_entry :: rdict where
  "no_data_entry =
     [(''price'', VNone), (''error'', VStr ''No data found''),
      (''note'', VStr ''Stock symbol is valid and can be traded even without price data''),
      (''tradeable'', VBool True)]"

definition market_data_for ::
  "sdk \<Rightarrow> string \<Rightarrow> (string \<times> rv) list \<Rightarrow> sdk_call list \<Rightarrow> (string \<times> rv) list \<times> sdk_call list" where
  "market_data_for api symbol market_data hist =
     (case first_bar api symbol read_market_bar [Day, Hour, Minute] hist of
        (Some (tf, entry), hist') \<Rightarrow> (dict_set market_data symbol (VDict entry), hist')
      | (None, hist') \<Rightarrow>
          (if has_key market_data symbol then (market_data, hist')
           else (dict_set market_data symbol (VDict no_data_entry), hist')))"

fun market_data_loop ::
  "sdk \<Rightarrow> string list \<Rightarrow> (string \<times> rv) list \<Rightarrow> sdk_call list \<Rightarrow> (string \<times> rv) list \<times> sdk_call list" where
  "market_data_loop api [] market_data hist = (market_data, hist)"
| "market_data_loop api (symbol # symbols) market_data hist =
     (case market_data_for api symbol market_data hist of
        (market_data', hist') \<Rightarrow> market_data_loop api symbols market_data' hist')"

definition get_market_data :: "sdk \<Rightarrow> string list \<Rightarrow> sdk_call list \<Rightarrow> (string \<times> rv) list \<times> sdk_call list" where
  "get_market_data api symbols hist =
     (case market_data_loop api symbols [] hist of
        (market_data, hist') \<Rightarrow>
          (case sdk_get_account api hist' of
             Inr account \<Rightarrow>
               (dict_set market_data ''account''
                  (VDict [(''equity'', VNum (equity account)), (''cash'', VNum (cash account)),
                          (''buying_power'', VNum (buying_power account)),
                          (''status'', VStr (account_status account))]),
                hist' @ [GetAccount])
           | Inl e \<Rightarrow>
               (dict_set market_data ''account'' (VDict [(''error'', VStr e)]), hist' @ [GetAccount])))"

section \<open>AIBroker: the three actions\<close>

text \<open>\<open>str(timeframe).split('.')[-1]\<close> for the SDK's three timeframes.\<close>

fun timeframe_str :: "TimeFrame \<Rightarrow> string" where
  "timeframe_str Day = ''1Day''"
| "timeframe_str Hour = ''1Hour''"
| "timeframe_str Minute = ''1Min''"

definition read_price_bar :: "bar \<Rightarrow> (real \<times> string) option" where
  "read_price_bar b = (case bar_close b of None \<Rightarrow> None | Some price \<Rightarrow> Some (price, bar_timestamp b))"

definition get_stock_price :: "sdk \<Rightarrow> string \<Rightarrow> sdk_call list \<Rightarrow> rdict \<times> sdk_call list" where
  "get_stock_price api symbol0 hist =
     (let symbol = upper (strip symbol0) in
      case first_bar api symbol read_price_bar [Day, Hour, Minute] hist of
        (Some (tf, price, ts), hist') \<Rightarrow>
          ([(''status'', VStr ''success''), (''symbol'', VStr symbol), (''price'', VNum price),
            (''timestamp'', VStr ts),
            (''note'', VStr (''Price from latest available '' @ timeframe_str tf @ '' bar''))], hist')
      | (None, hist') \<Rightarrow>
          (let rq = bars_request symbol Day 90 5; hist'' = hist' @ [GetStockBars rq] in
           case (case sdk_get_stock_bars api hist' rq of
                   Inl e \<Rightarrow> None
                 | Inr r \<Rightarrow> (case latest_bar r symbol of None \<Rightarrow> None | Some b \<Rightarrow> read_price_bar b)) of
             Some (price, ts) \<Rightarrow>
               ([(''status'', VStr ''success''), (''symbol'', VStr symbol), (''price'', VNum price),
                 (''timestamp'', VStr ts),
                 (''note'', VStr ''Historical price data - may not be current'')], hist'')
           | None \<Rightarrow>
               ([(''status'', VStr ''partial''), (''symbol'', VStr symbol), (''price'', VNone),
                 (''message'', VStr (''No price data available for '' @ symbol)),
                 (''note'', VStr ''Stock can still be traded without current price data''),
                 (''tradeable'', VBool True)], hist'')))"

definition opt_num :: "real option \<Rightarrow> rv" where
  "opt_num x = (case x of Some v \<Rightarrow> VNum v | None \<Rightarrow> VNum 0)"

definition opt_str :: "string option \<Rightarrow> rv" where
  "opt_str x = (case x of Some v \<Rightarrow> VStr v | None \<Rightarrow> VNone)"

definition order_to_dict :: "Order \<Rightarrow> rdict" where
  "order_to_dict order =
     [(''id'', VStr (order_id order)), (''client_order_id'', VStr (client_order_id order)),
      (''symbol'', VStr (order_symbol order)), (''side'', VStr (order_side order)),
      (''type'', VStr (order_type order)), (''status'', VStr (order_status order)),
      (''submitted_at'', opt_str (submitted_at order)), (''filled_at'', opt_str (filled_at order)),
      (''filled_qty'', opt_num (filled_qty order)),
      (''filled_avg_price'', opt_num (filled_avg_price order))]
     @ (case order_qty order of Some q \<Rightarrow> (if q \<noteq> 0 then [(''qty'', VNum q)] else []) | None \<Rightarrow> [])
     @ (case order_notional order of Some n \<Rightarrow> (if n \<noteq> 0 then [(''notional'', VNum n)] else []) | None \<Rightarrow> [])
     @ [(''time_in_force'', VStr (order_time_in_force order))]"

definition error_dict :: "string \<Rightarrow> rdict" where
  "error_dict message = [(''status'', VStr ''error''), (''message'', VStr message)]"

text \<open>
  \<open>buy_stock\<close>: the whole body is inside \<open>try\<close>, so a failing submission becomes an
  error dict. The order request is built with \<open>qty=quantity\<close> and no notional.
\<close>

definition buy_request :: "string \<Rightarrow> int \<Rightarrow> MarketOrderRequest" where
  "buy_request symbol quantity =
     \<lparr>mo_symbol = upper symbol, mo_qty = Some quantity, mo_notional = None,
      mo_side = BUY, mo_time_in_force = DAY\<rparr>"

definition buy_stock :: "sdk \<Rightarrow> string \<Rightarrow> int \<Rightarrow> sdk_call list \<Rightarrow> rdict \<times> sdk_call list" where
  "buy_stock api symbol quantity hist =
     (if symbol = [] then (error_dict ''Symbol is required'', hist)
      else if quantity = 0 \<or> quantity \<le> 0 then (error_dict ''Quantity must be positive'', hist)
      else
        (let order_data = buy_request symbol quantity in
         case sdk_submit_order api hist order_data of
           Inl e \<Rightarrow> (error_dict e, hist @ [SubmitOrder order_data])
         | Inr order \<Rightarrow>
             ([(''status'', VStr ''success''), (''order_id'', VStr (order_id order)),
               (''symbol'', VStr (order_symbol order)), (''quantity'', opt_num (order_qty order)),
               (''order_status'', VStr (order_status order)),
               (''details'', VDict (order_to_dict order))],
              hist @ [SubmitOrder order_data])))"

text \<open>
  \<open>get_account_info\<close>: the dict display names the key \<open>status\<close> twice, so the account's
  own status replaces \<open>success\<close>.
\<close>

definition get_account_info :: "sdk \<Rightarrow> sdk_call list \<Rightarrow> rdict \<times> sdk_call list" where
  "get_account_info api hist =
     (case sdk_get_account api hist of
        Inr account \<Rightarrow>
          (dict_lit [(''status'', VStr ''success''), (''equity'', VNum (equity account)),
                     (''cash'', VNum (cash account)), (''buying_power'', VNum (buying_power account)),
                     (''day_trade_count'', VInt (daytrade_count account)),
                     (''status'', VStr (account_status account))],
           hist @ [GetAccount])
      | Inl e \<Rightarrow> (error_dict e, hist @ [GetAccount]))"


subsection \<open>The order of the timeframes\<close>

text \<open>A response is usable by a reader if it has a last bar for the symbol that reads.\<close>

definition usable :: "(bar \<Rightarrow> 'a option) \<Rightarrow> string \<Rightarrow> string + bars \<Rightarrow> bool" where
  "usable rd symbol r =
     (case r of
        Inl e \<Rightarrow> False
      | Inr b \<Rightarrow> (case latest_bar b symbol of None \<Rightarrow> False | Some x \<Rightarrow> rd x \<noteq> None))"

definition month_request :: "string \<Rightarrow> TimeFrame \<Rightarrow> sdk_call" where
  "month_request symbol tf = GetStockBars (bars_request symbol tf 30 1)"

text \<open>
  The answer to the request for the timeframe at position \<open>k\<close> of daily, hourly,
  minute, when the requests before it have been made.
\<close>

definition answer :: "sdk \<Rightarrow> string \<Rightarrow> sdk_call list \<Rightarrow> nat \<Rightarrow> string + bars" where
  "answer api symbol hist k =
     sdk_get_stock_bars api (hist @ map (month_request symbol) (take k [Day, Hour, Minute]))
       (bars_request symbol ([Day, Hour, Minute] ! k) 30 1)"

text \<open>The timeframes to request: daily first, then hourly, then minute, up to the first usable answer.\<close>

definition attempts :: "sdk \<Rightarrow> string \<Rightarrow> (bar \<Rightarrow> 'a option) \<Rightarrow> sdk_call list \<Rightarrow> TimeFrame list" where
  "attempts api symbol rd hist =
     (if usable rd symbol (answer api symbol hist 0) then [Day]
      else if usable rd symbol (answer api symbol hist 1) then [Day, Hour]
      else [Day, Hour, Minute])"

definition found :: "sdk \<Rightarrow> string \<Rightarrow> (bar \<Rightarrow> 'a option) \<Rightarrow> sdk_call list \<Rightarrow> bool" where
  "found api symbol rd hist \<longleftrightarrow>
     usable rd symbol (answer api symbol hist 0) \<or> usable rd symbol (answer api symbol hist 1)
     \<or> usable rd symbol (answer api symbol hist 2)"

text \<open>The order the specification names: intraday, hourly, daily.\<close>

definition spec_timeframe_order :: "TimeFrame list" where
  "spec_timeframe_order = [Minute, Hour, Day]"

lemma first_bar_calls:
  "snd (first_bar api symbol rd [Day, Hour, Minute] hist)
   = hist @ map (month_request symbol) (attempts api symbol rd hist)"
  by (auto simp: attempts_def answer_def usable_def month_request_def Let_def
      split: sum.splits option.splits)

lemma first_bar_found:
  "(fst (first_bar api symbol rd [Day, Hour, Minute] hist) \<noteq> None) = found api symbol rd hist"
  by (auto simp: found_def answer_def usable_def month_request_def Let_def
      split: sum.splits option.splits)

lemma market_data_for_calls:
  "snd (market_data_for api symbol market_data hist)
   = snd (first_bar api symbol read_market_bar [Day, Hour, Minute] hist)"
  unfolding market_data_for_def
  by (cases "first_bar api symbol read_market_bar [Day, Hour, Minute] hist")
     (auto split: option.splits)

lemma get_stock_price_calls:
  "snd (get_stock_price api symbol hist)
   = snd (first_bar api (upper (strip symbol)) read_price_bar [Day, Hour, Minute] hist)
     @ (if fst (first_bar api (upper (strip symbol)) read_price_bar [Day, Hour, Minute] hist) \<noteq> None
        then [] else [GetStockBars (bars_request (upper (strip symbol)) Day 90 5)])"
  unfolding get_stock_price_def Let_def
  by (cases "first_bar api (upper (strip symbol)) read_price_bar [Day, Hour, Minute] hist")
     (auto split: option.splits sum.splits)

text \<open>
  The requests for a list of symbols: those of the first symbol, then those of the
  rest, each symbol asked in the same way after the requests made before it.
\<close>

fun symbol_requests :: "sdk \<Rightarrow> string list \<Rightarrow> sdk_call list \<Rightarrow> sdk_call list" where
  "symbol_requests api [] hist = []"
| "symbol_requests api (s # ss) hist =
     (let new = map (month_request s) (attempts api s read_market_bar hist)
      in new @ symbol_requests api ss (hist @ new))"

lemma market_data_loop_calls:
  "snd (market_data_loop api symbols market_data hist) = hist @ symbol_requests api symbols hist"
proof (induction symbols arbitrary: market_data hist)
  case Nil
  then show ?case by simp
next
  case (Cons s ss)
  obtain md' h' where step: "market_data_for api s market_data hist = (md', h')"
    by (cases "market_data_for api s market_data hist")
  have h': "h' = hist @ map (month_request s) (attempts api s read_market_bar hist)"
    using step market_data_for_calls [of api s market_data hist]
      first_bar_calls [of api s read_market_bar hist]
    by simp
  show ?case
    using step Cons.IH [of md' h'] h' by (simp add: Let_def)
qed

lemma get_market_data_calls:
  "snd (get_market_data api symbols hist) = hist @ symbol_requests api symbols hist @ [GetAccount]"
  using market_data_loop_calls [of api symbols "[]" hist]
  by (cases "market_data_loop api symbols [] hist")
     (auto simp: get_market_data_def split: sum.splits)

lemma attempts_start: "\<exists>rest. attempts api s rd hist = Day # rest"
  by (simp add: attempts_def)

lemma symbol_requests_all:
  "s \<in> set symbols \<Longrightarrow> month_request s Day \<in> set (symbol_requests api symbols hist)"
proof (induction symbols arbitrary: hist)
  case Nil
  then show ?case by simp
next
  case (Cons a ss)
  show ?case
  proof (cases "s = a")
    case True
    then show ?thesis
      using attempts_start [of api a read_market_bar hist] by (auto simp: Let_def)
  next
    case False
    then have "s \<in> set ss" using Cons.prems by simp
    then show ?thesis using Cons.IH by (simp add: Let_def)
  qed
qed

text \<open>
  C5 (as the code has it). For every requested symbol, in the order of the list, the
  bars are requested with a lookback of 30 days and \<open>limit=1\<close>, in the order daily,
  then hourly, then minute, and the requests for a symbol stop at the first answer with
  a readable last bar for it; every requested symbol is asked at least for its daily
  bars, and the account is read last. \<open>get_stock_price\<close> asks in the same order and
  makes one more request, daily bars over 90 days, when none of the three answers is
  usable.
\<close>

theorem timeframes_daily_first:
  "snd (get_market_data api symbols hist) = hist @ symbol_requests api symbols hist @ [GetAccount]
   \<and> (\<forall>s \<in> set symbols. month_request s Day \<in> set (symbol_requests api symbols hist))
   \<and> snd (market_data_for api symbol market_data hist)
     = hist @ map (month_request symbol) (attempts api symbol read_market_bar hist)
   \<and> snd (get_stock_price api symbol hist)
     = hist @ map (month_request (upper (strip symbol)))
         (attempts api (upper (strip symbol)) read_price_bar hist)
       @ (if found api (upper (strip symbol)) read_price_bar hist then []
          else [GetStockBars (bars_request (upper (strip symbol)) Day 90 5)])"
proof -
  have a: "snd (get_market_data api symbols hist) = hist @ symbol_requests api symbols hist @ [GetAccount]"
    by (rule get_market_data_calls)
  have b: "\<forall>s \<in> set symbols. month_request s Day \<in> set (symbol_requests api symbols hist)"
    using symbol_requests_all by blast
  have c: "snd (market_data_for api symbol market_data hist)
     = hist @ map (month_request symbol) (attempts api symbol read_market_bar hist)"
    by (simp only: market_data_for_calls first_bar_calls)
  have d: "snd (get_stock_price api symbol hist)
     = hist @ map (month_request (upper (strip symbol)))
         (attempts api (upper (strip symbol)) read_price_bar hist)
       @ (if found api (upper (strip symbol)) read_price_bar hist then []
          else [GetStockBars (bars_request (upper (strip symbol)) Day 90 5)])"
    by (simp only: get_stock_price_calls first_bar_calls first_bar_found append_assoc simp_thms)
  show ?thesis by (intro conjI) (rule a b c d)+
qed

definition tick :: "real \<Rightarrow> bar" where
  "tick p = \<lparr>bar_close = Some p, bar_open = Some p, bar_timestamp = ''t'', bar_volume = Some 1\<rparr>"

text \<open>An SDK that has a bar for every timeframe: 100 daily, 101 hourly, 102 by the minute.\<close>

definition every_timeframe_api :: sdk where
  "every_timeframe_api =
     \<lparr>sdk_get_stock_bars = (\<lambda>hist rq.
         Inr (BarSet [symbol_or_symbols rq \<mapsto>
           [tick (case timeframe rq of Day \<Rightarrow> 100 | Hour \<Rightarrow> 101 | Minute \<Rightarrow> 102)]])),
       sdk_submit_order = (\<lambda>hist rq. Inl ''closed''),
       sdk_get_account = (\<lambda>hist. Inl ''closed'')\<rparr>"

text \<open>An SDK that has only minute bars.\<close>

definition minute_only_api :: sdk where
  "minute_only_api =
     \<lparr>sdk_get_stock_bars = (\<lambda>hist rq.
         if timeframe rq = Minute then Inr (BarSet [symbol_or_symbols rq \<mapsto> [tick 102]])
         else Inl ''no data''),
       sdk_submit_order = (\<lambda>hist rq. Inl ''closed''),
       sdk_get_account = (\<lambda>hist. Inl ''closed'')\<rparr>"

lemma upper_strip_AAPL: "upper (strip ''AAPL'') = ''AAPL''"
  by code_simp

theorem timeframes_daily_first_witness:
  "snd (get_market_data every_timeframe_api [''AAPL'', ''MSFT''] [])
     = [month_request ''AAPL'' Day, month_request ''MSFT'' Day, GetAccount]
   \<and> month_request ''MSFT'' Day \<in> set (symbol_requests every_timeframe_api [''AAPL'', ''MSFT''] [])
   \<and> snd (get_stock_price minute_only_api ''AAPL'' [])
     = [month_request ''AAPL'' Day, month_request ''AAPL'' Hour, month_request ''AAPL'' Minute]"
proof -
  have a: "attempts minute_only_api ''AAPL'' read_price_bar [] = [Day, Hour, Minute]"
    by (simp add: attempts_def answer_def usable_def minute_only_api_def bars_request_def)
  have f: "found minute_only_api ''AAPL'' read_price_bar []"
    by (simp add: found_def answer_def usable_def minute_only_api_def latest_bar_def
        read_price_bar_def tick_def bars_request_def)
  have b: "\<And>s h. attempts every_timeframe_api s read_market_bar h = [Day]"
    by (simp add: attempts_def answer_def usable_def every_timeframe_api_def latest_bar_def
        read_market_bar_def tick_def bars_request_def)
  have r: "symbol_requests every_timeframe_api [''AAPL'', ''MSFT''] []
           = [month_request ''AAPL'' Day, month_request ''MSFT'' Day]"
    by (simp add: b Let_def)
  note t = timeframes_daily_first [of every_timeframe_api "[''AAPL'', ''MSFT'']" "[]"]
  note u = timeframes_daily_first [of minute_only_api _ "[]" "''AAPL''"]
  have m: "month_request ''MSFT'' Day \<in> set (symbol_requests every_timeframe_api [''AAPL'', ''MSFT''] [])"
    using t [THEN conjunct2, THEN conjunct1] by simp
  have g: "snd (get_market_data every_timeframe_api [''AAPL'', ''MSFT''] [])
     = [month_request ''AAPL'' Day, month_request ''MSFT'' Day, GetAccount]"
    using t [THEN conjunct1] unfolding r by simp
  have p: "snd (get_stock_price minute_only_api ''AAPL'' [])
     = [month_request ''AAPL'' Day, month_request ''AAPL'' Hour, month_request ''AAPL'' Minute]"
    using u [THEN conjunct2, THEN conjunct2, THEN conjunct2] a f by (simp add: upper_strip_AAPL)
  show ?thesis by (intro conjI) (rule g m p)+
qed

text \<open>
  With a bar available for every timeframe the first and only request is the daily one,
  and the price is the daily close: the order is not intraday, hourly, daily.
\<close>

theorem timeframes_daily_first_counterexample:
  "get_stock_price every_timeframe_api ''AAPL'' []
     = ([(''status'', VStr ''success''), (''symbol'', VStr ''AAPL''), (''price'', VNum 100),
         (''timestamp'', VStr ''t''), (''note'', VStr ''Price from latest available 1Day bar'')],
        [GetStockBars (bars_request ''AAPL'' Day 30 1)])
   \<and> \<not> prefix [Day] spec_timeframe_order"
  by (simp add: get_stock_price_def upper_strip_AAPL every_timeframe_api_def latest_bar_def
      read_price_bar_def tick_def bars_request_def spec_timeframe_order_def Let_def)



section \<open>Order requests carry a quantity or a notional value\<close>

definition one_size :: "order_data \<Rightarrow> bool" where
  "one_size d \<longleftrightarrow> (d ''qty'' \<noteq> None) \<noteq> (d ''notional'' \<noteq> None)"

definition one_size_request :: "MarketOrderRequest \<Rightarrow> bool" where
  "one_size_request r \<longleftrightarrow> (mo_qty r \<noteq> None) \<noteq> (mo_notional r \<noteq> None)"

text \<open>The HTTP requests an operation sent: those of the final state that the initial one lacks.\<close>

definition sent :: "io \<Rightarrow> 'a \<times> io \<Rightarrow> http_request list" where
  "sent s r = drop (length (calls s)) (calls (snd r))"

definition all_one_size :: "http_request list \<Rightarrow> bool" where
  "all_one_size rqs \<longleftrightarrow> list_all (\<lambda>rq. case req_data rq of None \<Rightarrow> False | Some d \<Rightarrow> one_size d) rqs"

lemma validate_calls: "calls (snd (validate_order_parameters symbol qty notional s)) = calls s"
  by (simp add: validate_order_parameters_def say_calls)

lemma validate_true:
  "fst (validate_order_parameters symbol qty notional s) \<Longrightarrow> (qty = None) \<noteq> (notional = None)"
  by (auto simp: validate_order_parameters_def split: if_splits)

lemma prepare_calls: "calls (snd (prepare_order_base symbol side qty notional tif s)) = calls s"
  using validate_calls [of symbol qty notional s]
  by (cases "validate_order_parameters symbol qty notional s")
     (auto simp: prepare_order_base_def Let_def split: bool.splits)

lemma prepare_one_size:
  assumes "fst (prepare_order_base symbol side qty notional tif s) = Some order"
  shows "order ''qty'' \<noteq> None \<longleftrightarrow> order ''notional'' = None"
    and "order ''qty'' \<noteq> None \<longleftrightarrow> qty \<noteq> None"
proof -
  obtain ok s' where v: "validate_order_parameters symbol qty notional s = (ok, s')"
    by (cases "validate_order_parameters symbol qty notional s")
  with assms have ok: ok by (cases ok) (simp_all add: prepare_order_base_def)
  then have x: "(qty = None) \<noteq> (notional = None)"
    using validate_true [of symbol qty notional s] v by simp
  show "order ''qty'' \<noteq> None \<longleftrightarrow> order ''notional'' = None"
    using assms v ok x by (cases qty) (auto simp: prepare_order_base_def Let_def)
  show "order ''qty'' \<noteq> None \<longleftrightarrow> qty \<noteq> None"
    using assms v ok x by (cases qty) (auto simp: prepare_order_base_def Let_def)
qed

lemma submit_order_sent:
  "sent s (submit_order net c d s) = [] \<or> (\<exists>url. sent s (submit_order net c d s) = [http_post url c d])"
  by (auto simp: sent_def submit_order_def send_def say_calls split: option.splits http_outcome.splits)

lemma sent_after:
  assumes "calls s' = calls s"
  shows "sent s r = sent s' r"
  using assms by (simp add: sent_def)

lemma all_one_size_submit:
  assumes "one_size d"
  shows "all_one_size (sent s (submit_order net c d s))"
  using submit_order_sent [of s net c d] assms
  by (auto simp: all_one_size_def http_post_def)

lemma submit_after:
  assumes "calls s' = calls s" and "one_size d"
  shows "all_one_size (sent s (submit_order net c d s'))"
  using all_one_size_submit [OF assms(2), of s' net c] assms(1) by (simp add: sent_def)

lemma all_one_size_none: "calls (snd r) = calls s \<Longrightarrow> all_one_size (sent s r)"
  by (simp add: sent_def all_one_size_def)

lemma one_size_more:
  assumes "one_size d" and "k \<noteq> ''qty''" and "k \<noteq> ''notional''"
  shows "one_size (d(k \<mapsto> v))"
  using assms by (simp add: one_size_def)

lemma one_size_base:
  "fst (prepare_order_base symbol side qty notional tif s) = Some order \<Longrightarrow> one_size order"
  using prepare_one_size(1) [of symbol side qty notional tif s order] by (auto simp: one_size_def)

lemma market_order_sent:
  "all_one_size (sent s (market_order net c symbol side qty notional tif ext s))"
proof (cases "prepare_order_base symbol side qty notional tif s")
  case (Pair o1 s')
  have c: "calls s' = calls s" using prepare_calls [of symbol side qty notional tif s] Pair by simp
  show ?thesis
  proof (cases o1)
    case None
    then show ?thesis using Pair c by (simp add: market_order_def all_one_size_none)
  next
    case (Some order)
    then have "one_size order" using one_size_base [of symbol side qty notional tif s order] Pair by simp
    then have "one_size (with_extended_hours ext (order(''type'' \<mapsto> OStr (type_value MARKET))))"
      by (simp add: with_extended_hours_def one_size_more)
    then show ?thesis
      using Pair Some submit_after [OF c, of _ net c]
      by (simp add: market_order_def)
  qed
qed

lemma limit_order_sent:
  "all_one_size (sent s (limit_order net c symbol side limit_price qty notional tif ext s))"
proof (cases "prepare_order_base symbol side qty notional tif s")
  case (Pair o1 s')
  have c: "calls s' = calls s" using prepare_calls [of symbol side qty notional tif s] Pair by simp
  show ?thesis
  proof (cases o1)
    case None
    then show ?thesis using Pair c by (simp add: limit_order_def all_one_size_none)
  next
    case (Some order)
    then have "one_size order" using one_size_base [of symbol side qty notional tif s order] Pair by simp
    then have "one_size (with_extended_hours ext
        (order(''type'' \<mapsto> OStr (type_value LIMIT), ''limit_price'' \<mapsto> OStrOf limit_price)))"
      by (simp add: with_extended_hours_def one_size_more)
    then show ?thesis
      using Pair Some submit_after [OF c, of _ net c] c
      by (simp add: limit_order_def all_one_size_none say_calls)
  qed
qed

lemma stop_order_sent:
  "all_one_size (sent s (stop_order net c symbol side stop_price qty notional tif s))"
proof (cases "prepare_order_base symbol side qty notional tif s")
  case (Pair o1 s')
  have c: "calls s' = calls s" using prepare_calls [of symbol side qty notional tif s] Pair by simp
  show ?thesis
  proof (cases o1)
    case None
    then show ?thesis using Pair c by (simp add: stop_order_def all_one_size_none)
  next
    case (Some order)
    then have "one_size order" using one_size_base [of symbol side qty notional tif s order] Pair by simp
    then have "one_size (order(''type'' \<mapsto> OStr (type_value STOP), ''stop_price'' \<mapsto> OStrOf stop_price))"
      by (simp add: one_size_more)
    then show ?thesis
      using Pair Some submit_after [OF c, of _ net c] c
      by (simp add: stop_order_def all_one_size_none say_calls)
  qed
qed

lemma stop_limit_order_sent:
  "all_one_size (sent s (stop_limit_order net c symbol side stop_price limit_price qty notional tif s))"
proof (cases "prepare_order_base symbol side qty notional tif s")
  case (Pair o1 s')
  have c: "calls s' = calls s" using prepare_calls [of symbol side qty notional tif s] Pair by simp
  show ?thesis
  proof (cases o1)
    case None
    then show ?thesis using Pair c by (simp add: stop_limit_order_def all_one_size_none)
  next
    case (Some order)
    then have "one_size order" using one_size_base [of symbol side qty notional tif s order] Pair by simp
    then have "one_size (order(''type'' \<mapsto> OStr (type_value STOP_LIMIT),
        ''stop_price'' \<mapsto> OStrOf stop_price, ''limit_price'' \<mapsto> OStrOf limit_price))"
      by (simp add: one_size_more)
    then show ?thesis
      using Pair Some submit_after [OF c, of _ net c] c
      by (simp add: stop_limit_order_def all_one_size_none say_calls)
  qed
qed

lemma buy_stock_requests:
  "snd (buy_stock api symbol quantity hist) = hist
   \<or> snd (buy_stock api symbol quantity hist) = hist @ [SubmitOrder (buy_request symbol quantity)]"
  by (auto simp: buy_stock_def Let_def split: sum.splits)

text \<open>
  C3. Every order dict that \<open>_prepare_order_base\<close> returns, every request that
  \<open>market_order\<close>, \<open>limit_order\<close>, \<open>stop_order\<close> and \<open>stop_limit_order\<close>
  send, and every order request that \<open>AIBroker.buy_stock\<close> submits has exactly one of
  the quantity and the notional value: never both and never neither.
\<close>

theorem order_request_one_size:
  "(fst (prepare_order_base symbol side qty notional tif s) = Some order \<longrightarrow> one_size order)
   \<and> all_one_size (sent s (market_order net c symbol side qty notional tif ext s))
   \<and> all_one_size (sent s (limit_order net c symbol side limit_price qty notional tif ext s))
   \<and> all_one_size (sent s (stop_order net c symbol side stop_price qty notional tif s))
   \<and> all_one_size (sent s (stop_limit_order net c symbol side stop_price limit_price qty notional tif s))
   \<and> (\<forall>r. SubmitOrder r \<in> set (drop (length hist) (snd (buy_stock api bsymbol quantity hist)))
          \<longrightarrow> one_size_request r \<and> mo_qty r = Some quantity)"
proof -
  have a: "fst (prepare_order_base symbol side qty notional tif s) = Some order \<longrightarrow> one_size order"
    using one_size_base by blast
  have b: "\<forall>r. SubmitOrder r \<in> set (drop (length hist) (snd (buy_stock api bsymbol quantity hist)))
          \<longrightarrow> one_size_request r \<and> mo_qty r = Some quantity"
  proof (intro allI impI)
    fix r
    assume "SubmitOrder r \<in> set (drop (length hist) (snd (buy_stock api bsymbol quantity hist)))"
    then have "r = buy_request bsymbol quantity"
      using buy_stock_requests [of api bsymbol quantity hist] by auto
    then show "one_size_request r \<and> mo_qty r = Some quantity"
      by (simp add: one_size_request_def buy_request_def)
  qed
  show ?thesis
    by (intro conjI)
       (rule a b market_order_sent limit_order_sent stop_order_sent stop_limit_order_sent)+
qed


text \<open>An SDK that rejects every order and has no data.\<close>

definition closed_api :: sdk where
  "closed_api =
     \<lparr>sdk_get_stock_bars = (\<lambda>hist rq. Inl ''closed''),
       sdk_submit_order = (\<lambda>hist rq. Inl ''market closed''),
       sdk_get_account = (\<lambda>hist. Inl ''closed'')\<rparr>"

lemma upper_aapl: "upper ''aapl'' = ''AAPL''"
  by code_simp

theorem order_request_one_size_witness:
  "fst (prepare_order_base ''aapl'' BUY (Some 5) None DAY fresh_io)
     = Some [''symbol'' \<mapsto> OStr ''AAPL'', ''side'' \<mapsto> OStr ''buy'',
             ''time_in_force'' \<mapsto> OStr ''day'', ''qty'' \<mapsto> OStrOf 5]
   \<and> one_size [''symbol'' \<mapsto> OStr ''AAPL'', ''side'' \<mapsto> OStr ''buy'',
               ''time_in_force'' \<mapsto> OStr ''day'', ''qty'' \<mapsto> OStrOf 5]
   \<and> SubmitOrder (buy_request ''aapl'' 3) \<in> set (drop (length []) (snd (buy_stock closed_api ''aapl'' 3 [])))
   \<and> one_size_request (buy_request ''aapl'' 3)"
proof -
  let ?order = "[''symbol'' \<mapsto> OStr ''AAPL'', ''side'' \<mapsto> OStr ''buy'',
             ''time_in_force'' \<mapsto> OStr ''day'', ''qty'' \<mapsto> OStrOf 5]"
  have p: "fst (prepare_order_base ''aapl'' BUY (Some 5) None DAY fresh_io) = Some ?order"
    by (simp add: prepare_order_base_def validate_order_parameters_def upper_aapl)
  have b: "SubmitOrder (buy_request ''aapl'' 3)
           \<in> set (drop (length []) (snd (buy_stock closed_api ''aapl'' 3 [])))"
    by (simp add: buy_stock_def closed_api_def)
  note t = order_request_one_size [of "''aapl''" BUY "Some 5" None DAY fresh_io ?order
        unreachable_net "AlpacaClient_init no_credentials" False 1 1 "[]" closed_api "''aapl''" 3]
  have o: "one_size ?order"
    using t [THEN conjunct1] p by (rule mp)
  have r: "one_size_request (buy_request ''aapl'' 3)"
    using t [THEN conjunct2, THEN conjunct2, THEN conjunct2, THEN conjunct2, THEN conjunct2,
        rule_format, OF b]
    by (rule conjunct1)
  show ?thesis
    by (intro conjI) (rule p o b r)+
qed


section \<open>AIBroker.execute_actions\<close>

text \<open>\<open>str(i)\<close> of an index, for the f-string keys.\<close>

definition digit_char :: "nat \<Rightarrow> char" where
  "digit_char d = char_of (48 + d)"

function str_nat :: "nat \<Rightarrow> string" where
  "str_nat n = (if n < 10 then [digit_char n] else str_nat (n div 10) @ [digit_char (n mod 10)])"
  by pat_completeness auto
termination
  by (relation "measure id") auto

declare str_nat.simps [simp del]

definition param_get :: "(string \<times> param) list \<Rightarrow> string \<Rightarrow> param \<Rightarrow> param" where
  "param_get ps k dflt = (case map_of ps k of None \<Rightarrow> dflt | Some v \<Rightarrow> v)"

text \<open>
  \<open>params.get("symbol", "").strip().upper()\<close>: a value that is not a string has no
  \<open>strip\<close>; \<open>Inl\<close> carries the text of the exception.
\<close>

definition symbol_param :: "(string \<times> param) list \<Rightarrow> string + string" where
  "symbol_param ps =
     (case param_get ps ''symbol'' (PText []) of
        PText s \<Rightarrow> Inr (upper (strip s))
      | PInt n \<Rightarrow> Inl ''int object has no attribute strip''
      | PNull \<Rightarrow> Inl ''NoneType object has no attribute strip'')"

text \<open>
  \<open>int(x)\<close>. On a string: white space around, an optional sign, and decimal digits
  that single underscores may separate.
\<close>

fun int_body_ok :: "string \<Rightarrow> bool" where
  "int_body_ok [] = False"
| "int_body_ok [c] = is_digit c"
| "int_body_ok (c # d # t) =
     (if is_digit c then (if d = CHR ''_'' then int_body_ok t else int_body_ok (d # t)) else False)"

definition int_of_str :: "string \<Rightarrow> int option" where
  "int_of_str s =
     (let t = strip s;
          neg = (t \<noteq> [] \<and> hd t = CHR ''-'');
          body = (if t \<noteq> [] \<and> (hd t = CHR ''-'' \<or> hd t = CHR ''+'') then tl t else t);
          ds = filter is_digit body
      in if int_body_ok body \<and> length ds \<le> max_str_digits
         then Some (if neg then - int (decimal ds) else int (decimal ds))
         else None)"

definition py_int :: "param \<Rightarrow> string + int" where
  "py_int v =
     (case v of
        PInt n \<Rightarrow> Inr n
      | PText s \<Rightarrow> (case int_of_str s of Some n \<Rightarrow> Inr n | None \<Rightarrow> Inl ''invalid literal for int()'')
      | PNull \<Rightarrow> Inl ''int() argument must be a string or a number'')"

text \<open>
  The body of the loop stores one entry per action. \<open>perform\<close> gives the entry's value
  and says under which of the three keys of the source it is stored:
  \<open>{action_name}_{i}\<close>, \<open>{action_name}_{i}_error\<close> (the \<open>except\<close> clause) or
  \<open>unknown_action_{i}\<close>. The progress messages printed on the way are left out.
\<close>

datatype slot = Named | Failed | Unknown

definition exn_dict :: "string \<Rightarrow> string \<Rightarrow> rdict" where
  "exn_dict action_name e = error_dict (''Error executing '' @ action_name @ '': '' @ e)"

definition perform :: "sdk \<Rightarrow> Action \<Rightarrow> sdk_call list \<Rightarrow> (slot \<times> rdict) \<times> sdk_call list" where
  "perform api a hist =
     (let action_name = action a; ps = params a in
      if action_name = ''buy_stock'' then
        (case symbol_param ps of
           Inl e \<Rightarrow> ((Failed, exn_dict action_name e), hist)
         | Inr symbol \<Rightarrow>
             (case py_int (param_get ps ''quantity'' (PInt 0)) of
                Inl e \<Rightarrow> ((Failed, exn_dict action_name e), hist)
              | Inr quantity \<Rightarrow>
                  if symbol = [] then ((Named, error_dict ''Missing or invalid symbol''), hist)
                  else if quantity \<le> 0 then ((Named, error_dict ''Quantity must be positive''), hist)
                  else (case buy_stock api symbol quantity hist of
                          (r, hist') \<Rightarrow> ((Named, r), hist'))))
      else if action_name = ''get_stock_price'' then
        (case symbol_param ps of
           Inl e \<Rightarrow> ((Failed, exn_dict action_name e), hist)
         | Inr symbol \<Rightarrow>
             if symbol = [] then ((Named, error_dict ''Missing or invalid symbol''), hist)
             else (case get_stock_price api symbol hist of (r, hist') \<Rightarrow> ((Named, r), hist')))
      else if action_name = ''get_account_info'' then
        (case get_account_info api hist of (r, hist') \<Rightarrow> ((Named, r), hist'))
      else ((Unknown, error_dict (''Unknown action: '' @ action_name)), hist))"

definition result_key :: "slot \<Rightarrow> string \<Rightarrow> nat \<Rightarrow> string" where
  "result_key sl action_name i =
     (case sl of
        Named \<Rightarrow> action_name @ ''_'' @ str_nat i
      | Failed \<Rightarrow> action_name @ ''_'' @ str_nat i @ ''_error''
      | Unknown \<Rightarrow> ''unknown_action_'' @ str_nat i)"




subsection \<open>Keys do not collide\<close>





subsection \<open>Actions as the extractor emits them\<close>

definition action_names :: "string set" where
  "action_names = {''buy_stock'', ''get_stock_price'', ''get_account_info''}"

text \<open>
  An action is well typed if its name is one of the three and its symbol, if given, is
  a string and its quantity, if given, an integer.
\<close>

definition well_typed :: "Action \<Rightarrow> bool" where
  "well_typed a \<longleftrightarrow>
     action a \<in> action_names
     \<and> (case map_of (params a) ''symbol'' of None \<Rightarrow> True | Some v \<Rightarrow> (case v of PText s \<Rightarrow> True | _ \<Rightarrow> False))
     \<and> (case map_of (params a) ''quantity'' of None \<Rightarrow> True | Some v \<Rightarrow> (case v of PInt q \<Rightarrow> True | _ \<Rightarrow> False))"




text \<open>The entries in the order of the actions, each under its own key, nothing replaced.\<close>

fun outcomes ::
  "sdk \<Rightarrow> nat \<Rightarrow> Action list \<Rightarrow> sdk_call list \<Rightarrow> (string \<times> rdict) list \<times> sdk_call list" where
  "outcomes api i [] hist = ([], hist)"
| "outcomes api i (a # rest) hist =
     (case perform api a hist of
        ((sl, r), hist') \<Rightarrow>
          (case outcomes api (Suc i) rest hist' of
             (es, hist'') \<Rightarrow> ((result_key sl (action a) i, r) # es, hist'')))"




lemma outcomes_Cons:
  "outcomes api i (a # rest) hist
   = ((result_key (fst (fst (perform api a hist))) (action a) i, snd (fst (perform api a hist)))
        # fst (outcomes api (Suc i) rest (snd (perform api a hist))),
      snd (outcomes api (Suc i) rest (snd (perform api a hist))))"
  by (simp split: prod.splits)

lemma outcomes_length: "length (fst (outcomes api i actions hist)) = length actions"
  by (induction actions arbitrary: i hist) (simp_all only: outcomes_Cons outcomes.simps, simp_all)



subsection \<open>The call history only grows\<close>


















lemma process_line_forms:
  assumes "a \<in> set (process_line line)"
  shows "(\<exists>s q. a = buy_action s q) \<or> (\<exists>s. a = price_action s) \<or> a = account_action"
  using assms buy_loop_cases [of "[0, 1, 2, 3, 4]" line] price_loop_cases [of "[5, 6]" line]
  by (auto simp: process_line_def account_check_def split: if_splits)

lemma well_typed_forms:
  "well_typed (buy_action s q)" "well_typed (price_action s)" "well_typed account_action"
  by (simp_all add: well_typed_def buy_action_def price_action_def account_action_def
      action_names_def)

lemma extract_well_typed: "list_all well_typed (extract_action_from_response response)"
proof -
  have "well_typed a" if "a \<in> set (extract_action_from_response response)" for a
  proof -
    from that obtain block where "a \<in> set (process_lines block)"
      by (auto simp: extract_action_from_response_def split: option.splits list.splits)
    then obtain line where "a \<in> set (process_line line)"
      by (auto simp: process_lines_def)
    then show ?thesis using process_line_forms well_typed_forms by blast
  qed
  then show ?thesis by (simp add: list_all_iff)
qed





















end
